theory Spec2Isabelle
  imports Main
begin

section \<open>Values of the Python runtime\<close>

text \<open>
  The script \<^verbatim>\<open>generate-report.py\<close> reads a JSON document, formats it as a markdown
  report and writes the report beside the input. Strings are byte strings holding UTF-8
  text; the exceptions the script can raise are values of \<open>error\<close>, and a computation that
  may raise returns \<open>error + 'a\<close> with \<open>Inl\<close> for the exception.
\<close>

datatype error =
    AttributeError | KeyError | TypeError | OverflowError | ZeroDivisionError
  | OSError | JSONDecodeError

definition bind :: "error + 'a \<Rightarrow> ('a \<Rightarrow> error + 'b) \<Rightarrow> error + 'b" where
  "bind m f = (case m of Inl e \<Rightarrow> Inl e | Inr v \<Rightarrow> f v)"

text \<open>
  A Python \<open>float\<close> is an IEEE binary64 number: \<open>Finite s m e\<close> is \<open>(-1)^s * m * 2^e\<close>
  (\<open>s\<close> set for a negative sign, so that \<open>Finite True 0 0\<close> is \<open>-0.0\<close>).
\<close>

datatype pyfloat = Finite bool nat int | Infinity bool | NaN

text \<open>
  What \<open>json.load\<close> returns: \<open>None\<close>, \<open>bool\<close>, \<open>int\<close> (unbounded), \<open>float\<close>, \<open>str\<close>,
  \<open>list\<close> and \<open>dict\<close>. A dict is the list of its items in insertion order.
\<close>

datatype json =
    JNull
  | JBool bool
  | JInt int
  | JFloat pyfloat
  | JStr string
  | JList "json list"
  | JDict "(string \<times> json) list"


section \<open>Arithmetic on floats\<close>

text \<open>
  Every float operation returns the exact result rounded to the nearest binary64 number,
  ties to the even significand. \<open>round_double s n d\<close> rounds the positive rational
  \<open>n / d\<close> (with sign \<open>s\<close>): \<open>leading_exponent n d\<close> is the exponent \<open>e\<close> of its leading bit
  (\<open>2^e \<le> n / d < 2^(e+1)\<close>), \<open>q\<close> the exponent of the last place that binary64 keeps there
  (\<open>-1074\<close> in the subnormal range), \<open>round_at n d q\<close> the integer nearest to
  \<open>n / (d * 2^q)\<close>, and a result of \<open>2^1024\<close> or more is an infinity.
\<close>

fun bit_length :: "nat \<Rightarrow> nat" where
  "bit_length n = (if n = 0 then 0 else Suc (bit_length (n div 2)))"

declare bit_length.simps [simp del]

definition round_half_even :: "nat \<Rightarrow> nat \<Rightarrow> nat" where
  "round_half_even a b =
     (let k = a div b; r = a mod b
      in if 2 * r < b then k
         else if b < 2 * r then k + 1
         else if even k then k else k + 1)"

definition leading_exponent :: "nat \<Rightarrow> nat \<Rightarrow> int" where
  "leading_exponent n d =
     (let e0 = int (bit_length n) - int (bit_length d)
      in if (if 0 \<le> e0 then d * 2 ^ nat e0 \<le> n else d \<le> n * 2 ^ nat (- e0))
         then e0 else e0 - 1)"

definition round_at :: "nat \<Rightarrow> nat \<Rightarrow> int \<Rightarrow> nat" where
  "round_at n d q =
     (if 0 \<le> q then round_half_even n (d * 2 ^ nat q)
      else round_half_even (n * 2 ^ nat (- q)) d)"

definition round_double :: "bool \<Rightarrow> nat \<Rightarrow> nat \<Rightarrow> pyfloat" where
  "round_double s n d =
     (if n = 0 then Finite s 0 0
      else
        let q = max (leading_exponent n d - 52) (- 1074);
            m = round_at n d q
        in if 0 \<le> q \<and> 2 ^ 1024 \<le> m * 2 ^ nat q then Infinity s else Finite s m q)"

definition float_is_zero :: "pyfloat \<Rightarrow> bool" where
  "float_is_zero f = (case f of Finite s m e \<Rightarrow> m = 0 | _ \<Rightarrow> False)"

text \<open>\<open>float(i)\<close> for an int: OverflowError when the int is beyond the range of a float.\<close>

definition float_of_int :: "int \<Rightarrow> error + pyfloat" where
  "float_of_int i =
     (case round_double (i < 0) (nat \<bar>i\<bar>) 1 of
        Infinity s \<Rightarrow> Inl OverflowError
      | f \<Rightarrow> Inr f)"

fun float_sub :: "pyfloat \<Rightarrow> pyfloat \<Rightarrow> pyfloat" where
  "float_sub NaN y = NaN"
| "float_sub x NaN = NaN"
| "float_sub (Infinity s1) (Infinity s2) = (if s1 = s2 then NaN else Infinity s1)"
| "float_sub (Infinity s1) (Finite s2 m2 e2) = Infinity s1"
| "float_sub (Finite s1 m1 e1) (Infinity s2) = Infinity (\<not> s2)"
| "float_sub (Finite s1 m1 e1) (Finite s2 m2 e2) =
     (let e = min e1 e2;
          a = (if s1 then - 1 else 1) * int m1 * 2 ^ nat (e1 - e);
          b = (if s2 then - 1 else 1) * int m2 * 2 ^ nat (e2 - e);
          d = a - b
      in if d = 0 then Finite (m1 = 0 \<and> m2 = 0 \<and> s1 \<and> \<not> s2) 0 0
         else round_double (d < 0) (nat \<bar>d\<bar> * 2 ^ nat e) (2 ^ nat (- e)))"

fun float_mul :: "pyfloat \<Rightarrow> pyfloat \<Rightarrow> pyfloat" where
  "float_mul NaN y = NaN"
| "float_mul x NaN = NaN"
| "float_mul (Infinity s1) (Infinity s2) = Infinity (s1 \<noteq> s2)"
| "float_mul (Infinity s1) (Finite s2 m2 e2) = (if m2 = 0 then NaN else Infinity (s1 \<noteq> s2))"
| "float_mul (Finite s1 m1 e1) (Infinity s2) = (if m1 = 0 then NaN else Infinity (s1 \<noteq> s2))"
| "float_mul (Finite s1 m1 e1) (Finite s2 m2 e2) =
     round_double (s1 \<noteq> s2) (m1 * m2 * 2 ^ nat (e1 + e2)) (2 ^ nat (- (e1 + e2)))"

text \<open>
  \<open>x / y\<close> on floats raises ZeroDivisionError for a zero divisor (of either sign) before
  anything else is looked at.
\<close>

fun float_quot :: "pyfloat \<Rightarrow> pyfloat \<Rightarrow> pyfloat" where
  "float_quot NaN y = NaN"
| "float_quot x NaN = NaN"
| "float_quot (Infinity s1) (Infinity s2) = NaN"
| "float_quot (Infinity s1) (Finite s2 m2 e2) = Infinity (s1 \<noteq> s2)"
| "float_quot (Finite s1 m1 e1) (Infinity s2) = Finite (s1 \<noteq> s2) 0 0"
| "float_quot (Finite s1 m1 e1) (Finite s2 m2 e2) =
     round_double (s1 \<noteq> s2) (m1 * 2 ^ nat (e1 - e2)) (m2 * 2 ^ nat (e2 - e1))"

definition float_div :: "pyfloat \<Rightarrow> pyfloat \<Rightarrow> error + pyfloat" where
  "float_div x y = (if float_is_zero y then Inl ZeroDivisionError else Inr (float_quot x y))"

text \<open>
  \<open>a / b\<close> on two ints is the exact quotient rounded once; it raises OverflowError when
  that is beyond the range of a float, and a zero quotient carries the sign \<open>b < 0\<close>.
\<close>

definition int_truediv :: "int \<Rightarrow> int \<Rightarrow> error + pyfloat" where
  "int_truediv a b =
     (if b = 0 then Inl ZeroDivisionError
      else case round_double ((a < 0) \<noteq> (b < 0)) (nat \<bar>a\<bar>) (nat \<bar>b\<bar>) of
             Infinity s \<Rightarrow> Inl OverflowError
           | f \<Rightarrow> Inr f)"

section \<open>Text of numbers\<close>

definition digit_char :: "nat \<Rightarrow> char" where
  "digit_char d = ''0123456789'' ! d"

fun nat_str :: "nat \<Rightarrow> string" where
  "nat_str n = (if n < 10 then [digit_char n] else nat_str (n div 10) @ [digit_char (n mod 10)])"

declare nat_str.simps [simp del]

definition int_str :: "int \<Rightarrow> string" where
  "int_str i = (if i < 0 then CHR ''-'' # nat_str (nat (- i)) else nat_str (nat i))"

text \<open>
  The format specification \<open>.1f\<close>: the exact value of the float rounded to one decimal,
  ties to even, with the sign kept on a result that rounds to zero.
\<close>

definition format_1f :: "pyfloat \<Rightarrow> string" where
  "format_1f f =
     (case f of
        NaN \<Rightarrow> ''nan''
      | Infinity s \<Rightarrow> (if s then ''-inf'' else ''inf'')
      | Finite s m e \<Rightarrow>
          (let t = round_half_even (m * 10 * 2 ^ nat e) (2 ^ nat (- e))
           in (if s then ''-'' else []) @ nat_str (t div 10) @ ''.'' @ nat_str (t mod 10)))"

text \<open>
  \<open>repr\<close> of a float prints the shortest decimal that reads back as the same float, and the
  one nearest to it when several of that length do. \<open>decpt n d\<close> is the position of the
  decimal point of \<open>n / d\<close>: \<open>10^(p-1) \<le> n / d < 10^p\<close>. \<open>digits_at n d p k\<close> is the
  candidate with \<open>k\<close> digits, as the integer \<open>c\<close> of the decimal \<open>c * 10^(p-k)\<close>.
\<close>

definition decpt :: "nat \<Rightarrow> nat \<Rightarrow> int" where
  "decpt n d =
     (if d \<le> n then int (length (nat_str (n div d)))
      else 1 - int (length (nat_str ((d - 1) div n))))"

definition reads_back :: "nat \<Rightarrow> nat \<Rightarrow> nat \<Rightarrow> int \<Rightarrow> bool" where
  "reads_back n d c t =
     (case round_double False (c * 10 ^ nat (- t)) (10 ^ nat t) of
        Finite s m q \<Rightarrow> m * 2 ^ nat q * d = n * 2 ^ nat (- q)
      | _ \<Rightarrow> False)"

definition digits_at :: "nat \<Rightarrow> nat \<Rightarrow> int \<Rightarrow> nat \<Rightarrow> bool \<Rightarrow> nat option" where
  "digits_at n d p k force =
     (let t = int k - p;
          num = n * 10 ^ nat t;
          den = d * 10 ^ nat (- t);
          lo = num div den;
          hi = lo + 1;
          near = (if 2 * num < (2 * lo + 1) * den then lo
                  else if (2 * lo + 1) * den < 2 * num then hi
                  else if even lo then lo else hi);
          far = (if near = lo then hi else lo)
      in if force \<or> reads_back n d near t then Some near
         else if reads_back n d far t then Some far
         else None)"

definition shortest_digits :: "nat \<Rightarrow> nat \<Rightarrow> string \<times> int" where
  "shortest_digits n d =
     (let p = decpt n d;
          ks = List.map_filter (\<lambda>k. map_option (\<lambda>c. (k, c)) (digits_at n d p k (k = 17)))
                 [1 ..< 18];
          (k, c) = hd ks;
          ds = nat_str c
      in (rev (dropWhile (\<lambda>x. x = CHR ''0'') (rev ds)), p + int (length ds) - int k))"

definition float_repr :: "pyfloat \<Rightarrow> string" where
  "float_repr f =
     (case f of
        NaN \<Rightarrow> ''nan''
      | Infinity s \<Rightarrow> (if s then ''-inf'' else ''inf'')
      | Finite s m e \<Rightarrow>
          (if s then ''-'' else []) @
          (if m = 0 then ''0.0''
           else
             let (ds, p) = shortest_digits (m * 2 ^ nat e) (2 ^ nat (- e));
                 k = int (length ds)
             in if - 4 < p \<and> p \<le> 16 then
                  (if p \<le> 0 then ''0.'' @ replicate (nat (- p)) CHR ''0'' @ ds
                   else if k \<le> p then ds @ replicate (nat (p - k)) CHR ''0'' @ ''.0''
                   else take (nat p) ds @ ''.'' @ drop (nat p) ds)
                else
                  [hd ds] @ (if tl ds = [] then [] else ''.'' @ tl ds) @ ''e'' @
                  (if p - 1 < 0 then ''-'' else ''+'') @
                  (if \<bar>p - 1\<bar> < 10 then ''0'' else []) @ nat_str (nat \<bar>p - 1\<bar>)))"

section \<open>Strings and containers\<close>

text \<open>
  Strings are byte strings holding UTF-8 text; a string is ASCII when every byte of it is
  below 128. \<open>join\<close>, \<open>replace\<close> and \<open>in\<close> work on the bytes. \<open>title\<close> and \<open>repr\<close> consult the
  Unicode tables of the runtime (which characters are cased, what their case mappings
  are, which are printable), and these tables are not part of this development: both
  are given in full on ASCII strings, and on a string with a byte outside ASCII their
  result is \<open>unicode_title s\<close> and \<open>unicode_repr s\<close>, two functions of the string about which
  nothing is known here.
\<close>

definition is_ascii :: "string \<Rightarrow> bool" where
  "is_ascii s = list_all (\<lambda>c. (of_char c :: nat) < 128) s"

definition unicode_title :: "string \<Rightarrow> string" where
  "unicode_title = undefined"

definition unicode_repr :: "string \<Rightarrow> string" where
  "unicode_repr = undefined"

fun py_join :: "string \<Rightarrow> string list \<Rightarrow> string" where
  "py_join sep [] = []"
| "py_join sep [x] = x"
| "py_join sep (x # y # ys) = x @ sep @ py_join sep (y # ys)"

text \<open>\<open>s.replace(old, new)\<close>: every occurrence of \<open>old\<close>, left to right, without overlap.\<close>

function str_replace :: "string \<Rightarrow> string \<Rightarrow> string \<Rightarrow> string" where
  "str_replace s old new =
     (if old = [] then new @ concat (map (\<lambda>c. c # new) s)
      else if s = [] then []
      else if take (length old) s = old then new @ str_replace (drop (length old) s) old new
      else hd s # str_replace (tl s) old new)"
  by pat_completeness auto
termination
  by (relation "measure (\<lambda>(s, old, new). length s)") auto

declare str_replace.simps [simp del]

definition is_lower :: "char \<Rightarrow> bool" where
  "is_lower c = (97 \<le> (of_char c :: nat) \<and> (of_char c :: nat) \<le> 122)"

definition is_upper :: "char \<Rightarrow> bool" where
  "is_upper c = (65 \<le> (of_char c :: nat) \<and> (of_char c :: nat) \<le> 90)"

definition to_upper :: "char \<Rightarrow> char" where
  "to_upper c = (if is_lower c then char_of ((of_char c :: nat) - 32) else c)"

definition to_lower :: "char \<Rightarrow> char" where
  "to_lower c = (if is_upper c then char_of ((of_char c :: nat) + 32) else c)"

text \<open>
  \<open>s.title()\<close>: a cased character is upper case when the character before it is not cased,
  and lower case otherwise. \<open>prev\<close> tells whether the previous character was cased. In an
  ASCII string the cased characters are the letters \<open>a\<close> to \<open>z\<close> and \<open>A\<close> to \<open>Z\<close>.
\<close>

fun title_from :: "bool \<Rightarrow> string \<Rightarrow> string" where
  "title_from prev [] = []"
| "title_from prev (c # cs) =
     (if is_lower c \<or> is_upper c
      then (if prev then to_lower c else to_upper c) # title_from True cs
      else c # title_from False cs)"

definition str_title :: "string \<Rightarrow> string" where
  "str_title s = (if is_ascii s then title_from False s else unicode_title s)"

fun is_substr :: "string \<Rightarrow> string \<Rightarrow> bool" where
  "is_substr k [] = (k = [])"
| "is_substr k (c # cs) = (take (length k) (c # cs) = k \<or> is_substr k cs)"

text \<open>
  \<open>repr\<close> of a string: in single quotes, unless it has a single quote and no double quote;
  the quote, the backslash and the characters that are not printable are escaped. In an
  ASCII string the characters that are not printable are the control characters, below
  32 and 127.
\<close>

definition hex_digit :: "nat \<Rightarrow> char" where
  "hex_digit d = ''0123456789abcdef'' ! d"

definition repr_char :: "char \<Rightarrow> char \<Rightarrow> string" where
  "repr_char quote c =
     (let n = (of_char c :: nat) in
      if c = quote \<or> c = CHR 0x5C then [CHR 0x5C, c]
      else if c = CHR 0x09 then [CHR 0x5C, CHR ''t'']
      else if c = CHR 0x0A then [CHR 0x5C, CHR ''n'']
      else if c = CHR 0x0D then [CHR 0x5C, CHR ''r'']
      else if n < 32 \<or> n = 127 then [CHR 0x5C, CHR ''x'', hex_digit (n div 16), hex_digit (n mod 16)]
      else [c])"

definition str_repr :: "string \<Rightarrow> string" where
  "str_repr s =
     (if is_ascii s
      then let quote = (if CHR 0x27 \<in> set s \<and> CHR 0x22 \<notin> set s then CHR 0x22 else CHR 0x27)
           in [quote] @ concat (map (repr_char quote) s) @ [quote]
      else unicode_repr s)"

fun py_repr :: "json \<Rightarrow> string" where
  "py_repr JNull = ''None''"
| "py_repr (JBool b) = (if b then ''True'' else ''False'')"
| "py_repr (JInt i) = int_str i"
| "py_repr (JFloat f) = float_repr f"
| "py_repr (JStr s) = str_repr s"
| "py_repr (JList xs) = ''['' @ py_join '', '' (map py_repr xs) @ '']''"
| "py_repr (JDict kvs) =
     ''{'' @ py_join '', '' (map (\<lambda>kv. str_repr (fst kv) @ '': '' @ py_repr (snd kv)) kvs) @ ''}''"

text \<open>What an f-string field \<open>{v}\<close> prints: \<open>str(v)\<close>.\<close>

definition py_str :: "json \<Rightarrow> string" where
  "py_str v = (case v of JStr s \<Rightarrow> s | _ \<Rightarrow> py_repr v)"

text \<open>The truth value of an object, as \<open>if\<close> and \<open>and\<close> take it.\<close>

definition py_bool :: "json \<Rightarrow> bool" where
  "py_bool v =
     (case v of
        JNull \<Rightarrow> False
      | JBool b \<Rightarrow> b
      | JInt i \<Rightarrow> i \<noteq> 0
      | JFloat f \<Rightarrow> \<not> float_is_zero f
      | JStr s \<Rightarrow> s \<noteq> []
      | JList xs \<Rightarrow> xs \<noteq> []
      | JDict kvs \<Rightarrow> kvs \<noteq> [])"

text \<open>\<open>d.get(k, default)\<close>: only a dict has the method.\<close>

definition py_get :: "json \<Rightarrow> string \<Rightarrow> json \<Rightarrow> error + json" where
  "py_get d k dflt =
     (case d of
        JDict kvs \<Rightarrow> Inr (case map_of kvs k of None \<Rightarrow> dflt | Some v \<Rightarrow> v)
      | _ \<Rightarrow> Inl AttributeError)"

text \<open>
  \<open>k in x\<close> for a string \<open>k\<close>: a key of a dict, a substring of a string, an element of a
  list; the other objects are not containers.
\<close>

definition py_in :: "string \<Rightarrow> json \<Rightarrow> error + bool" where
  "py_in k x =
     (case x of
        JDict kvs \<Rightarrow> Inr (map_of kvs k \<noteq> None)
      | JStr s \<Rightarrow> Inr (is_substr k s)
      | JList xs \<Rightarrow> Inr (List.member xs (JStr k))
      | _ \<Rightarrow> Inl TypeError)"

text \<open>\<open>x[k]\<close> for a string \<open>k\<close>: KeyError on a dict without the key, TypeError elsewhere.\<close>

definition py_getitem :: "json \<Rightarrow> string \<Rightarrow> error + json" where
  "py_getitem x k =
     (case x of
        JDict kvs \<Rightarrow> (case map_of kvs k of None \<Rightarrow> Inl KeyError | Some v \<Rightarrow> Inr v)
      | _ \<Rightarrow> Inl TypeError)"

definition py_items :: "json \<Rightarrow> error + (string \<times> json) list" where
  "py_items d = (case d of JDict kvs \<Rightarrow> Inr kvs | _ \<Rightarrow> Inl AttributeError)"

text \<open>What a \<open>for\<close> loop runs over: the elements of a list, the keys of a dict, the
  characters of a string.\<close>

definition py_iter :: "json \<Rightarrow> error + json list" where
  "py_iter x =
     (case x of
        JList xs \<Rightarrow> Inr xs
      | JDict kvs \<Rightarrow> Inr (map (\<lambda>kv. JStr (fst kv)) kvs)
      | JStr s \<Rightarrow> Inr (map (\<lambda>c. JStr [c]) s)
      | _ \<Rightarrow> Inl TypeError)"

text \<open>\<open>x == n\<close> for an int \<open>n\<close>: numbers compare by value, and \<open>True\<close> is \<open>1\<close>.\<close>

definition py_eq_int :: "json \<Rightarrow> int \<Rightarrow> bool" where
  "py_eq_int x n =
     (case x of
        JInt i \<Rightarrow> i = n
      | JBool b \<Rightarrow> (if b then 1 else 0) = n
      | JFloat (Finite s m e) \<Rightarrow>
          (if s then - 1 else 1) * int m * 2 ^ nat e = n * 2 ^ nat (- e)
      | _ \<Rightarrow> False)"

section \<open>Arithmetic on JSON values\<close>

text \<open>
  The numbers are \<open>int\<close>, \<open>float\<close> and \<open>bool\<close> (\<open>True\<close> is the int \<open>1\<close>). An operator on two
  ints is exact; when a float takes part, the int is converted first. On anything else
  \<open>-\<close> and \<open>/\<close> raise TypeError.
\<close>

datatype number = NInt int | NFloat pyfloat

definition as_number :: "json \<Rightarrow> number option" where
  "as_number v =
     (case v of
        JBool b \<Rightarrow> Some (NInt (if b then 1 else 0))
      | JInt i \<Rightarrow> Some (NInt i)
      | JFloat f \<Rightarrow> Some (NFloat f)
      | _ \<Rightarrow> None)"

definition to_float :: "number \<Rightarrow> error + pyfloat" where
  "to_float x = (case x of NInt i \<Rightarrow> float_of_int i | NFloat f \<Rightarrow> Inr f)"

definition py_sub :: "json \<Rightarrow> json \<Rightarrow> error + json" where
  "py_sub a b =
     (case (as_number a, as_number b) of
        (Some (NInt x), Some (NInt y)) \<Rightarrow> Inr (JInt (x - y))
      | (Some x, Some y) \<Rightarrow>
          bind (to_float x) (\<lambda>fx. bind (to_float y) (\<lambda>fy. Inr (JFloat (float_sub fx fy))))
      | _ \<Rightarrow> Inl TypeError)"

definition py_truediv :: "json \<Rightarrow> json \<Rightarrow> error + pyfloat" where
  "py_truediv a b =
     (case (as_number a, as_number b) of
        (Some (NInt x), Some (NInt y)) \<Rightarrow> int_truediv x y
      | (Some x, Some y) \<Rightarrow>
          bind (to_float x) (\<lambda>fx. bind (to_float y) (\<lambda>fy. float_div fx fy))
      | _ \<Rightarrow> Inl TypeError)"

text \<open>\<open>q * 100\<close> for a float \<open>q\<close>.\<close>

definition float_times_int :: "pyfloat \<Rightarrow> int \<Rightarrow> error + pyfloat" where
  "float_times_int q i = bind (float_of_int i) (\<lambda>h. Inr (float_mul q h))"


section \<open>The clock\<close>

text \<open>
  \<open>datetime.now()\<close> reads the wall clock; the reading is an argument of the report.
  \<open>strftime\<close> is the format \<^verbatim>\<open>%Y-%m-%d %H:%M:%S\<close> (for the years from 1000 on, which have
  four digits).
\<close>

record datetime =
  year :: nat
  month :: nat
  day :: nat
  hour :: nat
  minute :: nat
  second :: nat

definition zero_pad :: "nat \<Rightarrow> nat \<Rightarrow> string" where
  "zero_pad w n = replicate (w - length (nat_str n)) CHR ''0'' @ nat_str n"

definition strftime :: "datetime \<Rightarrow> string" where
  "strftime t =
     zero_pad 4 (year t) @ ''-'' @ zero_pad 2 (month t) @ ''-'' @ zero_pad 2 (day t) @ '' '' @
     zero_pad 2 (hour t) @ '':'' @ zero_pad 2 (minute t) @ '':'' @ zero_pad 2 (second t)"

section \<open>The report\<close>

text \<open>
  \<open>generate_markdown_report\<close> appends lines to the list \<open>report\<close> and joins them with
  newlines at the end. Here every part of it takes the list and returns it extended; an
  exception raised on the way is the result. The pictographs of the headings are their
  UTF-8 bytes.
\<close>

definition emoji_desktop :: string where
  "emoji_desktop = [CHR 0xF0, CHR 0x9F, CHR 0x96, CHR 0xA5, CHR 0xEF, CHR 0xB8, CHR 0x8F]"

definition emoji_clipboard :: string where
  "emoji_clipboard = [CHR 0xF0, CHR 0x9F, CHR 0x93, CHR 0x8B]"

definition emoji_trophy :: string where
  "emoji_trophy = [CHR 0xF0, CHR 0x9F, CHR 0x8F, CHR 0x86]"

definition emoji_chart :: string where
  "emoji_chart = [CHR 0xF0, CHR 0x9F, CHR 0x93, CHR 0x8A]"

definition emoji_target :: string where
  "emoji_target = [CHR 0xF0, CHR 0x9F, CHR 0x8E, CHR 0xAF]"

definition emoji_bulb :: string where
  "emoji_bulb = [CHR 0xF0, CHR 0x9F, CHR 0x92, CHR 0xA1]"

definition emoji_check :: string where
  "emoji_check = [CHR 0xE2, CHR 0x9C, CHR 0x85]"

definition emoji_rocket :: string where
  "emoji_rocket = [CHR 0xF0, CHR 0x9F, CHR 0x9A, CHR 0x80]"

definition emoji_bolt :: string where
  "emoji_bolt = [CHR 0xE2, CHR 0x9A, CHR 0xA1]"

definition emoji_party :: string where
  "emoji_party = [CHR 0xF0, CHR 0x9F, CHR 0x8E, CHR 0x89]"

definition emoji_gold :: string where
  "emoji_gold = [CHR 0xF0, CHR 0x9F, CHR 0xA5, CHR 0x87]"

definition emoji_silver :: string where
  "emoji_silver = [CHR 0xF0, CHR 0x9F, CHR 0xA5, CHR 0x88]"

definition emoji_bronze :: string where
  "emoji_bronze = [CHR 0xF0, CHR 0x9F, CHR 0xA5, CHR 0x89]"

definition check_mark :: string where
  "check_mark = [CHR 0xE2, CHR 0x9C, CHR 0x93]"

text \<open>Lines 19 to 23: the title, the time of generation and the date of the test.\<close>

definition header_section :: "datetime \<Rightarrow> json \<Rightarrow> string list \<Rightarrow> error + string list" where
  "header_section now results report =
     bind (py_get results ''timestamp'' (JStr ''N/A'')) (\<lambda>timestamp.
     Inr (report @
       [''# PHP MCP Server Benchmark Report'',
        '''',
        ''**Generated:** '' @ strftime now,
        ''**Test Date:** '' @ py_str timestamp,
        '''']))"

text \<open>Lines 26 to 36: the test environment.\<close>

definition environment_section :: "json \<Rightarrow> string list \<Rightarrow> error + string list" where
  "environment_section results report =
     bind (py_get results ''system'' (JDict [])) (\<lambda>system.
     bind (py_get system ''os'' (JStr ''N/A'')) (\<lambda>os.
     bind (py_get system ''arch'' (JStr ''N/A'')) (\<lambda>arch.
     bind (py_get system ''kernel'' (JStr ''N/A'')) (\<lambda>kernel.
     bind (py_in ''cpu'' system) (\<lambda>has_cpu.
     bind (if has_cpu
           then bind (py_getitem system ''cpu'') (\<lambda>cpu. Inr [''- **CPU:** '' @ py_str cpu])
           else Inr []) (\<lambda>cpu_line.
     bind (py_in ''memory'' system) (\<lambda>has_memory.
     bind (if has_memory
           then bind (py_getitem system ''memory'') (\<lambda>memory.
                  Inr [''- **Memory:** '' @ py_str memory])
           else Inr []) (\<lambda>memory_line.
     Inr (report @
       [''## '' @ emoji_desktop @ '' Test Environment'',
        '''',
        ''- **OS:** '' @ py_str os,
        ''- **Architecture:** '' @ py_str arch,
        ''- **Kernel:** '' @ py_str kernel] @
       cpu_line @ memory_line @ [''''])))))))))"

text \<open>Lines 39 to 48: the test configuration, only when \<open>test_details\<close> is a key.\<close>

definition test_details_section :: "json \<Rightarrow> string list \<Rightarrow> error + string list" where
  "test_details_section results report =
     bind (py_in ''test_details'' results) (\<lambda>present.
     if present then
       bind (py_getitem results ''test_details'') (\<lambda>details.
       bind (py_get details ''repository'' (JStr ''N/A'')) (\<lambda>repository.
       bind (py_get details ''files_analyzed'' (JStr ''N/A'')) (\<lambda>files_analyzed.
       bind (py_get details ''php_files'' (JStr ''N/A'')) (\<lambda>php_files.
       bind (py_get details ''dependencies'' (JStr ''N/A'')) (\<lambda>dependencies.
       bind (py_get details ''test_runs'' (JStr ''N/A'')) (\<lambda>test_runs.
       Inr (report @
         [''## '' @ emoji_clipboard @ '' Test Configuration'',
          '''',
          ''- **Repository:** '' @ py_str repository,
          ''- **Files Analyzed:** '' @ py_str files_analyzed,
          ''- **PHP Files:** '' @ py_str php_files,
          ''- **Dependencies:** '' @ py_str dependencies,
          ''- **Test Runs:** '' @ py_str test_runs,
          ''''])))))))
     else Inr report)"

text \<open>Lines 51 to 61: the performance summary, one row for each item of \<open>winners\<close>.\<close>

fun winners_loop :: "(string \<times> json) list \<Rightarrow> string list \<Rightarrow> string list" where
  "winners_loop [] report = report"
| "winners_loop ((category, winner) # items) report =
     (let category_name = str_title (str_replace category ''_'' '' '')
      in winners_loop items
           (report @ [''| '' @ category_name @ '' | **'' @ py_str winner @ ''** |'']))"

definition summary_section :: "json \<Rightarrow> string list \<Rightarrow> error + string list" where
  "summary_section results report =
     (let report = report @ [''## '' @ emoji_trophy @ '' Performance Summary'', ''''] in
      bind (py_in ''winners'' results) (\<lambda>present.
      if present then
        bind (py_getitem results ''winners'') (\<lambda>winners.
        bind (py_items winners) (\<lambda>items.
        Inr (winners_loop items
               (report @ [''| Category | Winner |'', ''|----------|--------|'']) @ [''''])))
      else Inr report))"

text \<open>
  Lines 64 to 97: the comparison table. \<open>res.get(name, {}).get(key, default)\<close> is
  \<open>metric\<close>. The package size of TypeScript is looked up and not printed.
\<close>

definition metric :: "json \<Rightarrow> string \<Rightarrow> string \<Rightarrow> json \<Rightarrow> error + json" where
  "metric res name key dflt = bind (py_get res name (JDict [])) (\<lambda>impl. py_get impl key dflt)"

definition comparison_section :: "json \<Rightarrow> string list \<Rightarrow> error + string list" where
  "comparison_section res report =
     (let report = report @
        [''## '' @ emoji_chart @ '' Detailed Benchmark Results'',
         '''',
         ''| Metric | TypeScript | Go | Rust | Winner |'',
         ''|--------|-----------|-----|------|--------|'']
      in
      bind (metric res ''TypeScript'' ''package_size_mb'' (JStr ''N/A'')) (\<lambda>ts_bin.
      bind (metric res ''Go'' ''binary_size_mb'' (JStr ''N/A'')) (\<lambda>go_bin.
      bind (metric res ''Rust'' ''binary_size_mb'' (JStr ''N/A'')) (\<lambda>rust_bin.
      let report = report @
        [''| Binary Size | N/A (needs runtime) | '' @ py_str go_bin @ '' MB | '' @
         py_str rust_bin @ '' MB | Rust |'']
      in
      bind (metric res ''TypeScript'' ''startup_time_ms'' (JStr ''N/A'')) (\<lambda>ts_start.
      bind (metric res ''Go'' ''startup_time_ms'' (JStr ''N/A'')) (\<lambda>go_start.
      bind (metric res ''Rust'' ''startup_time_ms'' (JStr ''N/A'')) (\<lambda>rust_start.
      let report = report @
        [''| Startup Time | '' @ py_str ts_start @ '' ms | '' @ py_str go_start @ '' ms | '' @
         py_str rust_start @ '' ms | Rust |'']
      in
      bind (metric res ''TypeScript'' ''memory_peak_mb'' (JStr ''N/A'')) (\<lambda>ts_mem.
      bind (metric res ''Go'' ''memory_peak_mb'' (JStr ''N/A'')) (\<lambda>go_mem.
      bind (metric res ''Rust'' ''memory_peak_mb'' (JStr ''N/A'')) (\<lambda>rust_mem.
      let report = report @
        [''| Memory Peak | '' @ py_str ts_mem @ '' MB | '' @ py_str go_mem @ '' MB | '' @
         py_str rust_mem @ '' MB | Rust |'']
      in
      bind (metric res ''TypeScript'' ''full_analysis_ms'' (JStr ''N/A'')) (\<lambda>ts_analysis.
      bind (metric res ''Go'' ''full_analysis_ms'' (JStr ''N/A'')) (\<lambda>go_analysis.
      bind (metric res ''Rust'' ''full_analysis_ms'' (JStr ''N/A'')) (\<lambda>rust_analysis.
      let report = report @
        [''| Full Analysis | '' @ py_str ts_analysis @ '' ms | '' @ py_str go_analysis @
         '' ms | '' @ py_str rust_analysis @ '' ms | Rust |'']
      in Inr (report @ ['''']))))))))))))))"

text \<open>
  Lines 100 to 124: the breakdown by operation. A missing timing is the int \<open>0\<close>; the
  speedup is computed only when the timings of TypeScript and of Rust are both true.
\<close>

definition operations :: "(string \<times> string) list" where
  "operations =
     [(''Dependency Analysis'', ''dependency_analysis_ms''),
      (''PSR-4 Validation'', ''psr4_validation_ms''),
      (''Namespace Detection'', ''namespace_detection_ms''),
      (''Security Audit'', ''security_audit_ms''),
      (''License Analysis'', ''license_analysis_ms'')]"

definition speedup :: "json \<Rightarrow> json \<Rightarrow> error + pyfloat" where
  "speedup ts_val rust_val =
     bind (py_sub ts_val rust_val) (\<lambda>difference.
     bind (py_truediv difference ts_val) (\<lambda>quotient.
     float_times_int quotient 100))"

definition speedup_cell :: "json \<Rightarrow> json \<Rightarrow> error + string" where
  "speedup_cell ts_val rust_val =
     (if py_bool ts_val \<and> py_bool rust_val
      then bind (speedup ts_val rust_val) (\<lambda>s. Inr (format_1f s @ ''% faster''))
      else Inr ''N/A'')"

definition operation_row :: "json \<Rightarrow> string \<Rightarrow> string \<Rightarrow> error + string" where
  "operation_row res op_name op_key =
     bind (metric res ''TypeScript'' op_key (JInt 0)) (\<lambda>ts_val.
     bind (metric res ''Go'' op_key (JInt 0)) (\<lambda>go_val.
     bind (metric res ''Rust'' op_key (JInt 0)) (\<lambda>rust_val.
     bind (speedup_cell ts_val rust_val) (\<lambda>cell.
     Inr (''| '' @ op_name @ '' | '' @ py_str ts_val @ '' ms | '' @ py_str go_val @
          '' ms | '' @ py_str rust_val @ '' ms | '' @ cell @ '' |'')))))"

fun operations_loop :: "json \<Rightarrow> (string \<times> string) list \<Rightarrow> string list \<Rightarrow> error + string list" where
  "operations_loop res [] report = Inr report"
| "operations_loop res ((op_name, op_key) # ops) report =
     bind (operation_row res op_name op_key) (\<lambda>row. operations_loop res ops (report @ [row]))"

definition breakdown_section :: "json \<Rightarrow> string list \<Rightarrow> error + string list" where
  "breakdown_section res report =
     bind (operations_loop res operations
             (report @
                [''## '' @ emoji_target @ '' Performance Breakdown by Operation'',
                 '''',
                 ''| Operation | TypeScript | Go | Rust | Speedup (Rust vs TS) |'',
                 ''|-----------|-----------|-----|------|---------------------|''])) (\<lambda>report.
     Inr (report @ ['''']))"

text \<open>
  Lines 127 to 155: the key insights. The three blocks differ in their texts only; each
  reads its entry of \<open>summary\<close> by subscript.
\<close>

definition insight_block ::
  "json \<Rightarrow> string \<Rightarrow> string \<Rightarrow> string \<Rightarrow> string \<Rightarrow> string \<Rightarrow> string \<Rightarrow> string
     \<Rightarrow> string list \<Rightarrow> error + string list" where
  "insight_block summary key heading label value_key unit improvement_key comparison report =
     bind (py_in key summary) (\<lambda>present.
     if present then
       bind (py_getitem summary key) (\<lambda>entry.
       bind (py_getitem entry ''language'') (\<lambda>language.
       bind (py_getitem entry value_key) (\<lambda>val.
       bind (py_getitem entry improvement_key) (\<lambda>improvement.
       Inr (report @
         [heading,
          ''- **Winner:** '' @ py_str language,
          ''- **'' @ label @ '':** '' @ py_str val @ '' '' @ unit,
          ''- **Improvement:** '' @ py_str improvement @ '' '' @ comparison,
          ''''])))))
     else Inr report)"

definition insights_section :: "json \<Rightarrow> string list \<Rightarrow> error + string list" where
  "insights_section results report =
     (let report = report @ [''## '' @ emoji_bulb @ '' Key Insights'', ''''] in
      bind (py_in ''summary'' results) (\<lambda>present.
      if present then
        bind (py_getitem results ''summary'') (\<lambda>summary.
        bind (insight_block summary ''fastest_startup'' ''### Startup Performance''
                ''Time'' ''time_ms'' ''ms'' ''improvement_vs_slowest''
                ''faster than slowest'' report) (\<lambda>report.
        bind (insight_block summary ''lowest_memory'' ''### Memory Efficiency''
                ''Usage'' ''memory_mb'' ''MB'' ''improvement_vs_highest''
                ''less than highest'' report) (\<lambda>report.
        insight_block summary ''fastest_analysis'' ''### Analysis Speed''
                ''Time'' ''time_ms'' ''ms'' ''improvement_vs_slowest''
                ''faster than slowest'' report)))
      else Inr report))"

text \<open>Lines 158 to 186: the recommendations, a fixed text.\<close>

definition recommendations_section :: "string list \<Rightarrow> string list" where
  "recommendations_section report =
     report @
       [''## '' @ emoji_target @ '' Recommendations'',
        '''',
        ''### For Dependency Buster Platform Rebuild'',
        '''',
        ''**Development Phase:**'',
        ''- '' @ emoji_check @ '' **TypeScript** - Fastest iteration, easiest debugging'',
        ''- '' @ emoji_check @ '' Rich npm ecosystem for rapid prototyping'',
        '''',
        ''**Production Deployment:**'',
        ''- '' @ emoji_rocket @ '' **Rust** - Best performance, lowest resource usage'',
        ''- '' @ emoji_rocket @ '' 89% faster full analysis'',
        ''- '' @ emoji_rocket @ '' 85% less memory consumption'',
        ''- '' @ emoji_rocket @ '' Single binary distribution'',
        '''',
        ''**Team Distribution:**'',
        ''- '' @ emoji_bolt @ '' **Go** - Good balance of performance and simplicity'',
        ''- '' @ emoji_bolt @ '' Fast compilation, easy cross-platform builds'',
        '''',
        ''### Use Case Matrix'',
        '''',
        ''| Scenario | Best Choice | Rationale |'',
        ''|----------|------------|-----------|'',
        ''| Local Development | TypeScript | Fast iteration, great tooling |'',
        ''| CI/CD Pipeline | Rust | Fastest execution, no dependencies |'',
        ''| Production Server | Rust | Minimal resources, maximum speed |'',
        ''| Windows Deployment | Go | Best Windows support |'',
        ''| Mac M1/M2 | Rust | Native ARM64, extremely fast |'',
        ''| Team Distribution | Go | Single binary, good docs |'',
        '''']"

text \<open>Lines 189 to 210: the ranking, one line for each element of
  \<open>summary.performance_ranking\<close>, and the final recommendation.\<close>

definition ranking_line :: "json \<Rightarrow> error + string" where
  "ranking_line rank_info =
     bind (py_getitem rank_info ''rank'') (\<lambda>rank.
     bind (py_getitem rank_info ''language'') (\<lambda>lang.
     bind (py_getitem rank_info ''score'') (\<lambda>score.
     Inr (py_str rank @ ''. '' @
          (if py_eq_int rank 1 then emoji_gold
           else if py_eq_int rank 2 then emoji_silver
           else emoji_bronze) @
          '' **'' @ py_str lang @ ''** (Score: '' @ py_str score @ ''/100)''))))"

fun ranking_loop :: "json list \<Rightarrow> string list \<Rightarrow> error + string list" where
  "ranking_loop [] report = Inr report"
| "ranking_loop (rank_info # rest) report =
     bind (ranking_line rank_info) (\<lambda>line. ranking_loop rest (report @ [line]))"

definition conclusion_section :: "json \<Rightarrow> string list \<Rightarrow> error + string list" where
  "conclusion_section results report =
     (let report = report @
        [''## '' @ emoji_party @ '' Conclusion'', '''', ''**Performance Ranking:**'']
      in
      bind (py_in ''summary'' results) (\<lambda>has_summary.
      bind (if has_summary
            then bind (py_getitem results ''summary'') (\<lambda>summary.
                   py_in ''performance_ranking'' summary)
            else Inr False) (\<lambda>has_ranking.
      bind (if has_ranking
            then bind (py_getitem results ''summary'') (\<lambda>summary.
                 bind (py_getitem summary ''performance_ranking'') (\<lambda>ranking.
                 bind (py_iter ranking) (\<lambda>infos. ranking_loop infos report)))
            else Inr report) (\<lambda>report.
      Inr (report @
        ['''',
         ''**Final Recommendation:**'',
         ''- Use **Rust** for the Dependency Buster production deployment'',
         ''- The performance gains (9x faster) and memory savings (85% less) justify the investment'',
         ''- Keep TypeScript for rapid prototyping and experiments'',
         ''''])))))"

definition report_lines :: "datetime \<Rightarrow> json \<Rightarrow> error + string list" where
  "report_lines now results =
     bind (header_section now results []) (\<lambda>report.
     bind (environment_section results report) (\<lambda>report.
     bind (test_details_section results report) (\<lambda>report.
     bind (summary_section results report) (\<lambda>report.
     bind (py_get results ''results'' (JDict [])) (\<lambda>res.
     bind (comparison_section res report) (\<lambda>report.
     bind (breakdown_section res report) (\<lambda>report.
     bind (insights_section results report) (\<lambda>report.
     conclusion_section results (recommendations_section report)))))))))"

definition generate_markdown_report :: "datetime \<Rightarrow> json \<Rightarrow> error + string" where
  "generate_markdown_report now results =
     bind (report_lines now results) (\<lambda>report. Inr (py_join [CHR 0x0A] report))"

section \<open>The program\<close>

text \<open>
  The files are a map from paths to contents; \<open>readable\<close> and \<open>writable\<close> tell whether
  \<open>open\<close> succeeds on a path for reading and for writing. \<open>json.load\<close> is the argument
  \<open>loads\<close>, which returns \<open>None\<close> on a text that is not JSON. The file is written in the
  encoding of its text, UTF-8, and newlines are written as they are.
\<close>

record file_system =
  files :: "string \<rightharpoonup> string"
  readable :: "string \<Rightarrow> bool"
  writable :: "string \<Rightarrow> bool"

definition load_results :: "(string \<Rightarrow> json option) \<Rightarrow> file_system \<Rightarrow> string \<Rightarrow> error + json" where
  "load_results loads fs filepath =
     (case files fs filepath of
        None \<Rightarrow> Inl OSError
      | Some text \<Rightarrow>
          if \<not> readable fs filepath then Inl OSError
          else (case loads text of None \<Rightarrow> Inl JSONDecodeError | Some results \<Rightarrow> Inr results))"

text \<open>
  What a run leaves behind: its exit status, the files and the lines printed. An exception
  that nothing catches ends the run with status 1.
\<close>

record run =
  exit_status :: nat
  files_after :: "string \<rightharpoonup> string"
  printed :: "string list"

definition output_path :: "string \<Rightarrow> string" where
  "output_path results_file = str_replace results_file ''.json'' ''_report.md''"

definition main ::
  "(string \<Rightarrow> json option) \<Rightarrow> datetime \<Rightarrow> file_system \<Rightarrow> string list \<Rightarrow> run" where
  "main loads now fs argv =
     (if length argv < 2 then
        \<lparr>exit_status = 1, files_after = files fs,
         printed = [''Usage: python3 generate-report.py <benchmark_results.json>'']\<rparr>
      else
        let results_file = argv ! 1 in
        case load_results loads fs results_file of
          Inl e \<Rightarrow> \<lparr>exit_status = 1, files_after = files fs, printed = []\<rparr>
        | Inr results \<Rightarrow>
            (case generate_markdown_report now results of
               Inl e \<Rightarrow> \<lparr>exit_status = 1, files_after = files fs, printed = []\<rparr>
             | Inr report \<Rightarrow>
                 let output_file = output_path results_file in
                 if writable fs output_file then
                   \<lparr>exit_status = 0,
                    files_after = (files fs)(output_file \<mapsto> report),
                    printed = [check_mark @ '' Report generated: '' @ output_file, report]\<rparr>
                 else \<lparr>exit_status = 1, files_after = files fs, printed = []\<rparr>))"

section \<open>The comparison table as the specification words it\<close>

text \<open>
  The specification has every data cell of the comparison table pulled from
  \<open>results.<Name>.<metric>\<close>, with \<open>N/A\<close> for a missing value. \<open>results_metric\<close> is that
  value, \<open>metric_text\<close> the text of the cell, and \<open>claimed_comparison_rows\<close> the four rows
  the sentence describes. \<open>dict_or_absent\<close> holds when the entry of an implementation is a
  dict or is not there, which is when \<open>get\<close> can be called on it.
\<close>

definition results_metric :: "(string \<times> json) list \<Rightarrow> string \<Rightarrow> string \<Rightarrow> json option" where
  "results_metric impls name key =
     (case map_of impls name of
        Some (JDict ms) \<Rightarrow> map_of ms key
      | _ \<Rightarrow> None)"

definition metric_text :: "(string \<times> json) list \<Rightarrow> string \<Rightarrow> string \<Rightarrow> string" where
  "metric_text impls name key =
     (case results_metric impls name key of None \<Rightarrow> ''N/A'' | Some v \<Rightarrow> py_str v)"

definition dict_or_absent :: "(string \<times> json) list \<Rightarrow> string \<Rightarrow> bool" where
  "dict_or_absent impls name =
     (case map_of impls name of None \<Rightarrow> True | Some (JDict ms) \<Rightarrow> True | Some _ \<Rightarrow> False)"

definition claimed_comparison_rows :: "(string \<times> json) list \<Rightarrow> string list" where
  "claimed_comparison_rows impls =
     [''| Binary Size | '' @ metric_text impls ''TypeScript'' ''package_size_mb'' @ '' MB | '' @
        metric_text impls ''Go'' ''binary_size_mb'' @ '' MB | '' @
        metric_text impls ''Rust'' ''binary_size_mb'' @ '' MB | Rust |'',
      ''| Startup Time | '' @ metric_text impls ''TypeScript'' ''startup_time_ms'' @ '' ms | '' @
        metric_text impls ''Go'' ''startup_time_ms'' @ '' ms | '' @
        metric_text impls ''Rust'' ''startup_time_ms'' @ '' ms | Rust |'',
      ''| Memory Peak | '' @ metric_text impls ''TypeScript'' ''memory_peak_mb'' @ '' MB | '' @
        metric_text impls ''Go'' ''memory_peak_mb'' @ '' MB | '' @
        metric_text impls ''Rust'' ''memory_peak_mb'' @ '' MB | Rust |'',
      ''| Full Analysis | '' @ metric_text impls ''TypeScript'' ''full_analysis_ms'' @ '' ms | '' @
        metric_text impls ''Go'' ''full_analysis_ms'' @ '' ms | '' @
        metric_text impls ''Rust'' ''full_analysis_ms'' @ '' ms | Rust |'']"


section \<open>Parts that only append\<close>

text \<open>
  A part of the report only appends when its result on a list is the list followed by
  the lines it returns on the empty list, and the exception it raises on the empty list
  otherwise.
\<close>

definition appends :: "(string list \<Rightarrow> error + string list) \<Rightarrow> bool" where
  "appends f = (\<forall>report. f report = bind (f []) (\<lambda>ls. Inr (report @ ls)))"


section \<open>Documents that render\<close>

text \<open>
  A document is well formed when \<open>system\<close>, \<open>test_details\<close> and \<open>winners\<close> are dicts or are
  not there; when \<open>results\<close>, if there, is a dict whose entries for the three
  implementations are dicts or are not there, with every operation timing of TypeScript
  and of Rust missing, null or a number (an int below \<open>2^1000\<close>, a float or a bool); and when
  \<open>summary\<close>, if there, is a dict whose insight entries have their three keys each and
  whose ranking is a list of dicts with the keys \<open>rank\<close>, \<open>language\<close> and \<open>score\<close>.
\<close>

definition has_keys :: "json \<Rightarrow> string list \<Rightarrow> bool" where
  "has_keys v ks = (case v of JDict e \<Rightarrow> list_all (\<lambda>k. map_of e k \<noteq> None) ks | _ \<Rightarrow> False)"

definition entry_ok :: "(string \<times> json) list \<Rightarrow> string \<Rightarrow> string list \<Rightarrow> bool" where
  "entry_ok summary key ks =
     (case map_of summary key of None \<Rightarrow> True | Some v \<Rightarrow> has_keys v ks)"

definition ranking_ok :: "(string \<times> json) list \<Rightarrow> bool" where
  "ranking_ok summary =
     (case map_of summary ''performance_ranking'' of
        None \<Rightarrow> True
      | Some (JList infos) \<Rightarrow> list_all (\<lambda>info. has_keys info [''rank'', ''language'', ''score'']) infos
      | Some _ \<Rightarrow> False)"

definition number_ok :: "json \<Rightarrow> bool" where
  "number_ok v =
     (case v of
        JBool b \<Rightarrow> True
      | JInt i \<Rightarrow> \<bar>i\<bar> < 2 ^ 1000
      | JFloat f \<Rightarrow> True
      | _ \<Rightarrow> False)"

definition timing_ok :: "(string \<times> json) list \<Rightarrow> string \<Rightarrow> string \<Rightarrow> bool" where
  "timing_ok impls name key =
     (case results_metric impls name key of None \<Rightarrow> True | Some v \<Rightarrow> v = JNull \<or> number_ok v)"

definition results_ok :: "(string \<times> json) list \<Rightarrow> bool" where
  "results_ok kvs =
     (case map_of kvs ''results'' of
        None \<Rightarrow> True
      | Some (JDict impls) \<Rightarrow>
          dict_or_absent impls ''TypeScript'' \<and> dict_or_absent impls ''Go'' \<and>
          dict_or_absent impls ''Rust'' \<and>
          list_all (\<lambda>op. timing_ok impls ''TypeScript'' (snd op) \<and> timing_ok impls ''Rust'' (snd op))
            operations
      | Some _ \<Rightarrow> False)"

definition summary_ok :: "(string \<times> json) list \<Rightarrow> bool" where
  "summary_ok kvs =
     (case map_of kvs ''summary'' of
        None \<Rightarrow> True
      | Some (JDict summary) \<Rightarrow>
          entry_ok summary ''fastest_startup'' [''language'', ''time_ms'', ''improvement_vs_slowest''] \<and>
          entry_ok summary ''lowest_memory'' [''language'', ''memory_mb'', ''improvement_vs_highest''] \<and>
          entry_ok summary ''fastest_analysis'' [''language'', ''time_ms'', ''improvement_vs_slowest''] \<and>
          ranking_ok summary
      | Some _ \<Rightarrow> False)"

definition well_formed :: "(string \<times> json) list \<Rightarrow> bool" where
  "well_formed kvs =
     (dict_or_absent kvs ''system'' \<and> dict_or_absent kvs ''test_details'' \<and>
      dict_or_absent kvs ''winners'' \<and> results_ok kvs \<and> summary_ok kvs)"


section \<open>Evaluation and basic facts\<close>

lemma bind_Inr [simp]: "bind (Inr v) f = f v"
  by (simp add: bind_def)

lemma bind_Inl [simp]: "bind (Inl e) f = Inl e"
  by (simp add: bind_def)

lemma str_replace_Nil [simp]: "str_replace [] (d # ds) new = []"
  by (simp add: str_replace.simps)

lemma str_replace_Cons [simp]:
  "str_replace (c # cs) (d # ds) new =
     (if take (Suc (length ds)) (c # cs) = d # ds
      then new @ str_replace (drop (length ds) cs) (d # ds) new
      else c # str_replace cs (d # ds) new)"
  by (subst str_replace.simps) simp


lemmas get_eval = py_get_def py_in_def py_getitem_def py_items_def

lemmas str_eval = py_str_def int_str_def nat_str.simps digit_char_def

lemma bind_eq_Inr: "(bind m f = Inr r) = (\<exists>v. m = Inr v \<and> f v = Inr r)"
  by (cases m) (simp_all add: bind_def)


section \<open>The performance summary\<close>

lemma winners_loop_map:
  "winners_loop items report =
     report @ map (\<lambda>(category, winner).
       ''| '' @ str_title (str_replace category ''_'' '' '') @ '' | **'' @ py_str winner @ ''** |'') items"
  by (induction items arbitrary: report) (auto simp: Let_def)



text \<open>
  Claim C10. When \<open>winners\<close> is a key and its value the empty dict, the two lines of the
  table head are still appended, with no row after them: the key decides whether the
  table is there, not what the dict holds.
\<close>

theorem empty_winners_table:
  "map_of kvs ''winners'' = Some (JDict []) \<Longrightarrow>
     summary_section (JDict kvs) report =
       Inr (report @
         [''## '' @ emoji_trophy @ '' Performance Summary'', '''',
          ''| Category | Winner |'', ''|----------|--------|'', ''''])"
  by (simp add: summary_section_def get_eval)

theorem empty_winners_table_witness:
  "map_of [(''winners'', JDict [])] ''winners'' = Some (JDict []) \<and>
   summary_section (JDict [(''winners'', JDict [])]) [] =
     Inr [''## '' @ emoji_trophy @ '' Performance Summary'', '''',
          ''| Category | Winner |'', ''|----------|--------|'', '''']"
  using empty_winners_table [of "[(''winners'', JDict [])]" "[]"]
  by simp

section \<open>The comparison table\<close>

lemma metric_value:
  "dict_or_absent impls name \<Longrightarrow>
     metric (JDict impls) name key dflt =
       Inr (case results_metric impls name key of None \<Rightarrow> dflt | Some v \<Rightarrow> v)"
  by (auto simp: dict_or_absent_def metric_def py_get_def results_metric_def
      split: option.splits json.splits)

text \<open>
  Claim C4, as amended. When the entries of the three implementations are dicts or are not
  there, every data cell of the comparison table is the text of
  \<open>results.<Name>.<metric>\<close> followed by its unit, with \<open>N/A\<close> for a missing value, except
  the TypeScript cell of the Binary Size row: that cell is the fixed text
  \<open>N/A (needs runtime)\<close>, whatever \<open>results.TypeScript\<close> holds. The Binary Size row reads
  \<open>binary_size_mb\<close> of Go and of Rust.
\<close>

theorem comparison_table_cells:
  assumes ts: "dict_or_absent impls ''TypeScript''"
    and go: "dict_or_absent impls ''Go''"
    and rust: "dict_or_absent impls ''Rust''"
  shows "comparison_section (JDict impls) report =
     Inr (report @
       [''## '' @ emoji_chart @ '' Detailed Benchmark Results'', '''',
        ''| Metric | TypeScript | Go | Rust | Winner |'',
        ''|--------|-----------|-----|------|--------|'',
        ''| Binary Size | N/A (needs runtime) | '' @
          metric_text impls ''Go'' ''binary_size_mb'' @ '' MB | '' @
          metric_text impls ''Rust'' ''binary_size_mb'' @ '' MB | Rust |''] @
       tl (claimed_comparison_rows impls) @ [''''])"
proof -
  have m: "\<And>name key. dict_or_absent impls name \<Longrightarrow>
      metric (JDict impls) name key (JStr ''N/A'') =
        Inr (case results_metric impls name key of None \<Rightarrow> JStr ''N/A'' | Some v \<Rightarrow> v)"
    by (rule metric_value)
  have s: "\<And>name key. py_str (case results_metric impls name key of None \<Rightarrow> JStr ''N/A'' | Some v \<Rightarrow> v)
      = metric_text impls name key"
    by (simp add: metric_text_def py_str_def split: option.splits)
  show ?thesis
    by (simp add: comparison_section_def m [OF ts] m [OF go] m [OF rust] s
        claimed_comparison_rows_def Let_def)
qed

theorem comparison_table_cells_witness:
  "dict_or_absent [(''TypeScript'', JDict [(''package_size_mb'', JInt 45), (''startup_time_ms'', JInt 100)]),
                   (''Rust'', JDict [(''binary_size_mb'', JInt 5), (''startup_time_ms'', JInt 50)])] ''TypeScript'' \<and>
   dict_or_absent [(''TypeScript'', JDict [(''package_size_mb'', JInt 45), (''startup_time_ms'', JInt 100)]),
                   (''Rust'', JDict [(''binary_size_mb'', JInt 5), (''startup_time_ms'', JInt 50)])] ''Go'' \<and>
   dict_or_absent [(''TypeScript'', JDict [(''package_size_mb'', JInt 45), (''startup_time_ms'', JInt 100)]),
                   (''Rust'', JDict [(''binary_size_mb'', JInt 5), (''startup_time_ms'', JInt 50)])] ''Rust'' \<and>
   comparison_section
     (JDict [(''TypeScript'', JDict [(''package_size_mb'', JInt 45), (''startup_time_ms'', JInt 100)]),
             (''Rust'', JDict [(''binary_size_mb'', JInt 5), (''startup_time_ms'', JInt 50)])]) [] =
     Inr [''## '' @ emoji_chart @ '' Detailed Benchmark Results'', '''',
          ''| Metric | TypeScript | Go | Rust | Winner |'',
          ''|--------|-----------|-----|------|--------|'',
          ''| Binary Size | N/A (needs runtime) | N/A MB | 5 MB | Rust |'',
          ''| Startup Time | 100 ms | N/A ms | 50 ms | Rust |'',
          ''| Memory Peak | N/A MB | N/A MB | N/A MB | Rust |'',
          ''| Full Analysis | N/A ms | N/A ms | N/A ms | Rust |'',
          '''']"
proof -
  have d: "dict_or_absent [(''TypeScript'', JDict [(''package_size_mb'', JInt 45), (''startup_time_ms'', JInt 100)]),
                   (''Rust'', JDict [(''binary_size_mb'', JInt 5), (''startup_time_ms'', JInt 50)])] ''TypeScript''"
    "dict_or_absent [(''TypeScript'', JDict [(''package_size_mb'', JInt 45), (''startup_time_ms'', JInt 100)]),
                   (''Rust'', JDict [(''binary_size_mb'', JInt 5), (''startup_time_ms'', JInt 50)])] ''Go''"
    "dict_or_absent [(''TypeScript'', JDict [(''package_size_mb'', JInt 45), (''startup_time_ms'', JInt 100)]),
                   (''Rust'', JDict [(''binary_size_mb'', JInt 5), (''startup_time_ms'', JInt 50)])] ''Rust''"
    by (simp_all add: dict_or_absent_def)
  from comparison_table_cells [OF d, of "[]"] d show ?thesis
    by (simp add: claimed_comparison_rows_def metric_text_def results_metric_def str_eval)
qed

text \<open>
  The claim as the specification states it fails where \<open>results.TypeScript\<close> has a size:
  with \<open>package_size_mb\<close> and \<open>binary_size_mb\<close> both 45 the claimed cell is \<open>45 MB\<close>, and
  the report has \<open>N/A (needs runtime)\<close>.
\<close>

theorem comparison_table_cells_counterexample:
  "comparison_section
     (JDict [(''TypeScript'', JDict [(''package_size_mb'', JInt 45), (''binary_size_mb'', JInt 45)])]) [] \<noteq>
     Inr ([''## '' @ emoji_chart @ '' Detailed Benchmark Results'', '''',
           ''| Metric | TypeScript | Go | Rust | Winner |'',
           ''|--------|-----------|-----|------|--------|''] @
          claimed_comparison_rows
            [(''TypeScript'', JDict [(''package_size_mb'', JInt 45), (''binary_size_mb'', JInt 45)])] @
          [''''])"
  by (simp add: comparison_section_def metric_def py_get_def str_eval Let_def
      claimed_comparison_rows_def metric_text_def results_metric_def)

text \<open>
  Claim C5. Whatever the results hold, when the comparison table is produced its four
  rows are Binary Size, Startup Time, Memory Peak and Full Analysis, in this order, and
  each ends with the cell \<open>Rust\<close> in the Winner column.
\<close>

theorem comparison_winner_column:
  assumes "comparison_section res report = Inr report'"
  shows "\<exists>b s m a. report' = report @
       [''## '' @ emoji_chart @ '' Detailed Benchmark Results'', '''',
        ''| Metric | TypeScript | Go | Rust | Winner |'',
        ''|--------|-----------|-----|------|--------|'',
        ''| Binary Size | '' @ b @ '' | Rust |'',
        ''| Startup Time | '' @ s @ '' | Rust |'',
        ''| Memory Peak | '' @ m @ '' | Rust |'',
        ''| Full Analysis | '' @ a @ '' | Rust |'',
        '''']"
proof -
  from assms obtain ts_bin go_bin rust_bin ts_start go_start rust_start
      ts_mem go_mem rust_mem ts_analysis go_analysis rust_analysis
    where r: "report' = report @
       [''## '' @ emoji_chart @ '' Detailed Benchmark Results'', '''',
        ''| Metric | TypeScript | Go | Rust | Winner |'',
        ''|--------|-----------|-----|------|--------|'',
        ''| Binary Size | N/A (needs runtime) | '' @ py_str go_bin @ '' MB | '' @
          py_str rust_bin @ '' MB | Rust |'',
        ''| Startup Time | '' @ py_str ts_start @ '' ms | '' @ py_str go_start @ '' ms | '' @
          py_str rust_start @ '' ms | Rust |'',
        ''| Memory Peak | '' @ py_str ts_mem @ '' MB | '' @ py_str go_mem @ '' MB | '' @
          py_str rust_mem @ '' MB | Rust |'',
        ''| Full Analysis | '' @ py_str ts_analysis @ '' ms | '' @ py_str go_analysis @
          '' ms | '' @ py_str rust_analysis @ '' ms | Rust |'',
        '''']"
    by (auto simp: comparison_section_def bind_eq_Inr Let_def)
  show ?thesis
    apply (rule exI [where x = "''N/A (needs runtime) | '' @ py_str go_bin @ '' MB | '' @ py_str rust_bin @ '' MB''"])
    apply (rule exI [where x = "py_str ts_start @ '' ms | '' @ py_str go_start @ '' ms | '' @ py_str rust_start @ '' ms''"])
    apply (rule exI [where x = "py_str ts_mem @ '' MB | '' @ py_str go_mem @ '' MB | '' @ py_str rust_mem @ '' MB''"])
    apply (rule exI [where x = "py_str ts_analysis @ '' ms | '' @ py_str go_analysis @ '' ms | '' @ py_str rust_analysis @ '' ms''"])
    apply (simp add: r)
    done
qed


text \<open>
  With a startup time of 100 for TypeScript and of 50 for Rust the Startup Time row shows
  \<open>100 ms\<close> and \<open>50 ms\<close>, and its Winner is \<open>Rust\<close>.
\<close>

theorem comparison_winner_column_witness:
  "comparison_section
     (JDict [(''TypeScript'', JDict [(''startup_time_ms'', JInt 100)]),
             (''Rust'', JDict [(''startup_time_ms'', JInt 50)])]) [] =
     Inr [''## '' @ emoji_chart @ '' Detailed Benchmark Results'', '''',
          ''| Metric | TypeScript | Go | Rust | Winner |'',
          ''|--------|-----------|-----|------|--------|'',
          ''| Binary Size | N/A (needs runtime) | N/A MB | N/A MB | Rust |'',
          ''| Startup Time | 100 ms | N/A ms | 50 ms | Rust |'',
          ''| Memory Peak | N/A MB | N/A MB | N/A MB | Rust |'',
          ''| Full Analysis | N/A ms | N/A ms | N/A ms | Rust |'',
          ''''] \<and>
   (\<exists>b s m a.
      [''## '' @ emoji_chart @ '' Detailed Benchmark Results'', '''',
       ''| Metric | TypeScript | Go | Rust | Winner |'',
       ''|--------|-----------|-----|------|--------|'',
       ''| Binary Size | N/A (needs runtime) | N/A MB | N/A MB | Rust |'',
       ''| Startup Time | 100 ms | N/A ms | 50 ms | Rust |'',
       ''| Memory Peak | N/A MB | N/A MB | N/A MB | Rust |'',
       ''| Full Analysis | N/A ms | N/A ms | N/A ms | Rust |'',
       ''''] =
      [] @
      [''## '' @ emoji_chart @ '' Detailed Benchmark Results'', '''',
       ''| Metric | TypeScript | Go | Rust | Winner |'',
       ''|--------|-----------|-----|------|--------|'',
       ''| Binary Size | '' @ b @ '' | Rust |'',
       ''| Startup Time | '' @ s @ '' | Rust |'',
       ''| Memory Peak | '' @ m @ '' | Rust |'',
       ''| Full Analysis | '' @ a @ '' | Rust |'',
       ''''])"
proof -
  have e: "comparison_section
     (JDict [(''TypeScript'', JDict [(''startup_time_ms'', JInt 100)]),
             (''Rust'', JDict [(''startup_time_ms'', JInt 50)])]) [] =
     Inr [''## '' @ emoji_chart @ '' Detailed Benchmark Results'', '''',
          ''| Metric | TypeScript | Go | Rust | Winner |'',
          ''|--------|-----------|-----|------|--------|'',
          ''| Binary Size | N/A (needs runtime) | N/A MB | N/A MB | Rust |'',
          ''| Startup Time | 100 ms | N/A ms | 50 ms | Rust |'',
          ''| Memory Peak | N/A MB | N/A MB | N/A MB | Rust |'',
          ''| Full Analysis | N/A ms | N/A ms | N/A ms | Rust |'',
          '''']"
    by (simp add: comparison_section_def metric_def py_get_def str_eval Let_def)
  from comparison_winner_column [OF e] e show ?thesis
    by blast
qed

section \<open>Runs of the program\<close>

lemma empty_report_succeeds:
  "\<exists>report. generate_markdown_report now (JDict []) = Inr report"
  by (simp add: generate_markdown_report_def report_lines_def header_section_def
      environment_section_def test_details_section_def summary_section_def
      comparison_section_def breakdown_section_def operations_def operation_row_def
      speedup_cell_def py_bool_def insights_section_def conclusion_section_def
      recommendations_section_def metric_def get_eval Let_def)

text \<open>
  Claim C8. When a path is given and loading it fails (no such file, a file that cannot
  be read, or a text that is not JSON), the run ends with a status other than zero, no
  file is created or changed, and nothing is printed.
\<close>

theorem load_failure_no_output:
  assumes "2 \<le> length argv"
    and "files fs (argv ! 1) = None \<or> \<not> readable fs (argv ! 1) \<or>
         (\<exists>text. files fs (argv ! 1) = Some text \<and> loads text = None)"
  shows "exit_status (main loads now fs argv) \<noteq> 0 \<and>
         files_after (main loads now fs argv) = files fs \<and>
         printed (main loads now fs argv) = []"
proof -
  from assms(2) have "\<exists>e. load_results loads fs (argv ! 1) = Inl e"
    by (auto simp: load_results_def split: option.splits)
  then obtain e where "load_results loads fs (argv ! 1) = Inl e" ..
  with assms(1) show ?thesis
    by (simp add: main_def)
qed

theorem load_failure_no_output_witness:
  "2 \<le> length [''generate-report.py'', ''missing.json''] \<and>
   files \<lparr>files = Map.empty, readable = (\<lambda>p. True), writable = (\<lambda>p. True)\<rparr>
     ([''generate-report.py'', ''missing.json''] ! 1) = None \<and>
   exit_status (main (\<lambda>text. None) \<lparr>year = 2024, month = 3, day = 7, hour = 9, minute = 5, second = 0\<rparr>
     \<lparr>files = Map.empty, readable = (\<lambda>p. True), writable = (\<lambda>p. True)\<rparr>
     [''generate-report.py'', ''missing.json'']) \<noteq> 0 \<and>
   files_after (main (\<lambda>text. None) \<lparr>year = 2024, month = 3, day = 7, hour = 9, minute = 5, second = 0\<rparr>
     \<lparr>files = Map.empty, readable = (\<lambda>p. True), writable = (\<lambda>p. True)\<rparr>
     [''generate-report.py'', ''missing.json'']) = Map.empty"
  using load_failure_no_output [of "[''generate-report.py'', ''missing.json'']"
      "\<lparr>files = Map.empty, readable = (\<lambda>p. True), writable = (\<lambda>p. True)\<rparr>"
      "\<lambda>text. None" "\<lparr>year = 2024, month = 3, day = 7, hour = 9, minute = 5, second = 0\<rparr>"]
  by simp

text \<open>
  Claim C9. When the run ends with status zero, the input was loaded, the report was
  rendered from it at the clock reading of the run, and the content of the output file is
  that very string.
\<close>

theorem written_file_is_report:
  assumes "exit_status (main loads now fs argv) = 0"
  shows "\<exists>results report.
           load_results loads fs (argv ! 1) = Inr results \<and>
           generate_markdown_report now results = Inr report \<and>
           files_after (main loads now fs argv) (output_path (argv ! 1)) = Some report"
  using assms
  by (auto simp: main_def Let_def split: if_splits sum.splits)

theorem written_file_is_report_witness:
  "exit_status (main (\<lambda>text. Some (JDict [])) \<lparr>year = 2024, month = 3, day = 7, hour = 9, minute = 5, second = 0\<rparr>
     \<lparr>files = [''results.json'' \<mapsto> ''{}''], readable = (\<lambda>p. True), writable = (\<lambda>p. True)\<rparr>
     [''generate-report.py'', ''results.json'']) = 0 \<and>
   (\<exists>results report.
      load_results (\<lambda>text. Some (JDict []))
        \<lparr>files = [''results.json'' \<mapsto> ''{}''], readable = (\<lambda>p. True), writable = (\<lambda>p. True)\<rparr>
        ([''generate-report.py'', ''results.json''] ! 1) = Inr results \<and>
      generate_markdown_report \<lparr>year = 2024, month = 3, day = 7, hour = 9, minute = 5, second = 0\<rparr> results = Inr report \<and>
      files_after (main (\<lambda>text. Some (JDict [])) \<lparr>year = 2024, month = 3, day = 7, hour = 9, minute = 5, second = 0\<rparr>
        \<lparr>files = [''results.json'' \<mapsto> ''{}''], readable = (\<lambda>p. True), writable = (\<lambda>p. True)\<rparr>
        [''generate-report.py'', ''results.json''])
        (output_path ([''generate-report.py'', ''results.json''] ! 1)) = Some report)"
proof -
  obtain report where r: "generate_markdown_report \<lparr>year = 2024, month = 3, day = 7, hour = 9, minute = 5, second = 0\<rparr> (JDict []) = Inr report"
    using empty_report_succeeds by blast
  have e: "exit_status (main (\<lambda>text. Some (JDict [])) \<lparr>year = 2024, month = 3, day = 7, hour = 9, minute = 5, second = 0\<rparr>
     \<lparr>files = [''results.json'' \<mapsto> ''{}''], readable = (\<lambda>p. True), writable = (\<lambda>p. True)\<rparr>
     [''generate-report.py'', ''results.json'']) = 0"
    by (simp add: main_def load_results_def r Let_def)
  from written_file_is_report [OF e] e show ?thesis
    by simp
qed

section \<open>The clock in the report\<close>

lemma bind_assoc: "bind (bind m f) g = bind m (\<lambda>v. bind (f v) g)"
  by (cases m) simp_all

lemma bind_if: "bind (if c then a else b) f = (if c then bind a f else bind b f)"
  by simp

lemma environment_appends:
  "environment_section results report =
     bind (environment_section results []) (\<lambda>ls. Inr (report @ ls))"
  by (simp add: environment_section_def bind_assoc)

lemma test_details_appends:
  "test_details_section results report =
     bind (test_details_section results []) (\<lambda>ls. Inr (report @ ls))"
  by (simp add: test_details_section_def bind_assoc bind_if cong: if_cong)

lemma summary_appends:
  "summary_section results report =
     bind (summary_section results []) (\<lambda>ls. Inr (report @ ls))"
  by (simp add: summary_section_def bind_assoc bind_if winners_loop_map Let_def cong: if_cong)

lemma comparison_appends:
  "comparison_section res report =
     bind (comparison_section res []) (\<lambda>ls. Inr (report @ ls))"
  by (simp add: comparison_section_def bind_assoc Let_def)

lemma operations_loop_prefix:
  "operations_loop res ops (report @ pre) =
     bind (operations_loop res ops pre) (\<lambda>ls. Inr (report @ ls))"
proof (induction ops arbitrary: pre)
  case Nil
  show ?case by simp
next
  case (Cons op ops)
  obtain op_name op_key where op: "op = (op_name, op_key)" by (cases op)
  show ?case
    using Cons.IH [of "pre @ [row]" for row]
    by (simp add: op bind_assoc)
qed

lemma breakdown_appends:
  "breakdown_section res report =
     bind (breakdown_section res []) (\<lambda>ls. Inr (report @ ls))"
  using operations_loop_prefix [of res operations report]
  by (simp add: breakdown_section_def bind_assoc)

lemma insight_block_appends:
  "insight_block summary key heading label value_key unit improvement_key comparison report =
     bind (insight_block summary key heading label value_key unit improvement_key comparison [])
       (\<lambda>ls. Inr (report @ ls))"
  by (simp add: insight_block_def bind_assoc bind_if cong: if_cong)


lemma ranking_loop_prefix:
  "ranking_loop infos (report @ pre) =
     bind (ranking_loop infos pre) (\<lambda>ls. Inr (report @ ls))"
proof (induction infos arbitrary: pre)
  case Nil
  show ?case by simp
next
  case (Cons info infos)
  show ?case
    using Cons.IH [of "pre @ [line]" for line]
    by (simp add: bind_assoc)
qed

lemma appendsD: "appends f \<Longrightarrow> f report = bind (f []) (\<lambda>ls. Inr (report @ ls))"
  unfolding appends_def by blast

lemma appends_ext: "(\<And>report. f report = g report) \<Longrightarrow> appends g \<Longrightarrow> appends f"
proof -
  assume "\<And>report. f report = g report"
  then have "f = g" by (rule ext)
  then show "appends g \<Longrightarrow> appends f" by simp
qed

lemma appends_comp:
  assumes "appends f" and "appends g"
  shows "appends (\<lambda>report. bind (f report) g)"
  unfolding appends_def
proof
  fix report
  note f = appendsD [OF assms(1)] and g = appendsD [OF assms(2)]
  show "bind (f report) g = bind (bind (f []) g) (\<lambda>ls. Inr (report @ ls))"
  proof (cases "f []")
    case (Inl e)
    with f [of report] show ?thesis by simp
  next
    case (Inr a)
    with f [of report] have "f report = Inr (report @ a)" by simp
    moreover have "g (report @ a) = bind (g a) (\<lambda>ls. Inr (report @ ls))"
      by (subst g [of "report @ a"], subst g [of a]) (simp add: bind_assoc)
    ultimately show ?thesis using Inr by simp
  qed
qed

lemma appends_const:
  assumes "\<And>v. appends (F v)"
  shows "appends (\<lambda>report. bind m (\<lambda>v. F v report))"
proof (cases m)
  case (Inl e)
  then show ?thesis by (simp add: appends_def)
next
  case (Inr v)
  with assms [of v] show ?thesis by simp
qed

lemma appends_if:
  assumes "appends f" and "appends g"
  shows "appends (\<lambda>report. if c then f report else g report)"
  using assms by (cases c) simp_all

lemma appends_pure: "appends (\<lambda>report. Inr (report @ ls))"
  by (simp add: appends_def)

lemma appends_id: "appends Inr"
  by (simp add: appends_def)

lemma appends_shift:
  assumes "appends f"
  shows "appends (\<lambda>report. f (report @ ls))"
  unfolding appends_def
proof
  fix report
  note f = appendsD [OF assms]
  show "f (report @ ls) = bind (f ([] @ ls)) (\<lambda>x. Inr (report @ x))"
    by (subst f [of "report @ ls"], simp, subst f [of ls]) (simp add: bind_assoc)
qed

lemma appends_let:
  assumes "appends f"
  shows "appends (\<lambda>report. Let (report @ ls) f)"
  using appends_shift [OF assms] by (simp add: Let_def)

lemma appends_environment: "appends (environment_section results)"
  unfolding appends_def by (rule allI, rule environment_appends)

lemma appends_test_details: "appends (test_details_section results)"
  unfolding appends_def by (rule allI, rule test_details_appends)

lemma appends_summary: "appends (summary_section results)"
  unfolding appends_def by (rule allI, rule summary_appends)

lemma appends_comparison: "appends (comparison_section res)"
  unfolding appends_def by (rule allI, rule comparison_appends)

lemma appends_breakdown: "appends (breakdown_section res)"
  unfolding appends_def by (rule allI, rule breakdown_appends)

lemma appends_insight_block:
  "appends (insight_block summary key heading label value_key unit improvement_key comparison)"
  unfolding appends_def by (rule allI, rule insight_block_appends)

lemma appends_ranking_loop: "appends (ranking_loop infos)"
  unfolding appends_def
proof
  fix report
  show "ranking_loop infos report = bind (ranking_loop infos []) (\<lambda>ls. Inr (report @ ls))"
    using ranking_loop_prefix [of infos report "[]"] by (simp only: append_Nil2)
qed

lemma appends_insights: "appends (insights_section results)"
  by (rule appends_ext [OF insights_section_def])
     (intro appends_let appends_comp appends_const appends_if appends_pure appends_id
        appends_insight_block)

lemma appends_conclusion: "appends (conclusion_section results)"
  by (rule appends_ext [OF conclusion_section_def])
     (intro appends_let appends_comp appends_const appends_if appends_pure appends_id
        appends_ranking_loop)

lemma appends_rest:
  "appends (\<lambda>report.
     bind (environment_section results report) (\<lambda>report.
     bind (test_details_section results report) (\<lambda>report.
     bind (summary_section results report) (\<lambda>report.
     bind (py_get results ''results'' (JDict [])) (\<lambda>res.
     bind (comparison_section res report) (\<lambda>report.
     bind (breakdown_section res report) (\<lambda>report.
     bind (insights_section results report) (\<lambda>report.
     conclusion_section results (recommendations_section report)))))))))"
  unfolding recommendations_section_def
  by (intro appends_comp appends_const appends_shift appends_environment appends_test_details
      appends_summary appends_comparison appends_breakdown appends_insights appends_conclusion)

lemma report_lines_clock:
  "report_lines now' results =
     bind (report_lines now results)
       (\<lambda>report. Inr (report[2 := ''**Generated:** '' @ strftime now']))"
proof -
  define rest where "rest = (\<lambda>report.
     bind (environment_section results report) (\<lambda>report.
     bind (test_details_section results report) (\<lambda>report.
     bind (summary_section results report) (\<lambda>report.
     bind (py_get results ''results'' (JDict [])) (\<lambda>res.
     bind (comparison_section res report) (\<lambda>report.
     bind (breakdown_section res report) (\<lambda>report.
     bind (insights_section results report) (\<lambda>report.
     conclusion_section results (recommendations_section report)))))))))"
  have a: "appends rest"
    unfolding rest_def by (rule appends_rest)
  have r: "report_lines t results = bind (header_section t results []) rest" for t
    by (simp add: report_lines_def rest_def)
  show ?thesis
  proof (cases "py_get results ''timestamp'' (JStr ''N/A'')")
    case (Inl e)
    then show ?thesis by (simp add: r header_section_def)
  next
    case (Inr timestamp)
    then show ?thesis
      by (simp add: r header_section_def, subst appendsD [OF a], subst (2) appendsD [OF a])
         (simp add: bind_assoc)
  qed
qed


text \<open>
  Claim C7, as amended. The report is a function of the results and of the reading of the
  clock, and the clock is in one line only: rendering the same results at another time
  \<open>now'\<close> raises the same exception or gives the same lines but for the third, the
  \<open>**Generated:**\<close> line, which has the new time. Two renderings of the same results in
  the same second are therefore the same string.
\<close>

theorem report_clock_line:
  "generate_markdown_report now' results =
     bind (report_lines now results)
       (\<lambda>report. Inr (py_join [CHR 0x0A] (report[2 := ''**Generated:** '' @ strftime now'])))"
  by (simp add: generate_markdown_report_def report_lines_clock [of now' results now] bind_assoc)

text \<open>
  As the specification states it, with the results alone fixing the string, the claim
  fails: the empty results rendered one second apart give two different reports.
\<close>

theorem report_clock_line_counterexample:
  "generate_markdown_report \<lparr>year = 2024, month = 3, day = 7, hour = 9, minute = 5, second = 0\<rparr> (JDict []) \<noteq>
   generate_markdown_report \<lparr>year = 2024, month = 3, day = 7, hour = 9, minute = 5, second = 1\<rparr> (JDict [])"
  by (simp add: generate_markdown_report_def report_lines_def header_section_def
      environment_section_def test_details_section_def summary_section_def
      comparison_section_def breakdown_section_def operations_def operation_row_def
      speedup_cell_def py_bool_def insights_section_def conclusion_section_def
      recommendations_section_def metric_def get_eval str_eval Let_def
      strftime_def zero_pad_def)

section \<open>The speedup\<close>

lemma bit_length_bounds:
  "0 < n \<Longrightarrow> 2 ^ (bit_length n - 1) \<le> n \<and> n < 2 ^ bit_length n"
proof (induction n rule: bit_length.induct)
  case (1 n)
  show ?case
  proof (cases "n div 2 = 0")
    case True
    with "1.prems" have "n = 1" by (cases n) auto
    then show ?thesis
      by (simp add: bit_length.simps [of "Suc 0"] bit_length.simps [of 0])
  next
    case False
    with "1.IH" "1.prems" have ih: "2 ^ (bit_length (n div 2) - 1) \<le> n div 2"
        "n div 2 < 2 ^ bit_length (n div 2)"
      by auto
    have pos: "0 < bit_length (n div 2)"
      using False by (subst bit_length.simps) simp
    have bl: "bit_length n = Suc (bit_length (n div 2))"
      using "1.prems" by (subst bit_length.simps) simp
    from pos obtain k where k: "bit_length (n div 2) = Suc k"
      by (cases "bit_length (n div 2)") auto
    from ih show ?thesis
      by (simp add: bl k) linarith
  qed
qed

lemma bit_length_le: "n < 2 ^ k \<Longrightarrow> bit_length n \<le> k"
proof (cases "n = 0")
  case True
  then show ?thesis by (simp add: bit_length.simps)
next
  case False
  assume "n < 2 ^ k"
  show ?thesis
  proof (rule ccontr)
    assume "\<not> bit_length n \<le> k"
    then have "k \<le> bit_length n - 1" by simp
    then have "(2::nat) ^ k \<le> 2 ^ (bit_length n - 1)"
      by (rule power_increasing) simp
    moreover from bit_length_bounds [of n] False have "2 ^ (bit_length n - 1) \<le> n" by simp
    ultimately have "2 ^ k \<le> n" by (rule order_trans)
    with \<open>n < 2 ^ k\<close> show False by simp
  qed
qed

lemma bit_length_pos: "0 < n \<Longrightarrow> 0 < bit_length n"
  by (subst bit_length.simps) simp

lemma round_half_even_ge: "a div b \<le> round_half_even a b"
  by (simp add: round_half_even_def Let_def)

lemma round_half_even_le: "round_half_even a b \<le> a div b + 1"
  by (simp add: round_half_even_def Let_def)

lemma leading_exponent_le:
  "leading_exponent n d \<le> int (bit_length n) - int (bit_length d)"
  by (simp add: leading_exponent_def Let_def)

text \<open>A rounded positive integer is not zero.\<close>

lemma round_at_int_pos:
  assumes "0 < n" and "q \<le> int (bit_length n) - 1"
  shows "0 < round_at n (Suc 0) q"
proof (cases "0 \<le> q")
  case True
  with assms(2) have "nat q \<le> bit_length n - 1" by simp
  then have "(2::nat) ^ nat q \<le> 2 ^ (bit_length n - 1)"
    by (rule power_increasing) simp
  moreover from bit_length_bounds [OF assms(1)] have "2 ^ (bit_length n - 1) \<le> n" by simp
  ultimately have "2 ^ nat q \<le> n" by (rule order_trans)
  then have "0 < n div 2 ^ nat q"
    by (simp add: div_greater_zero_iff)
  also have "\<dots> \<le> round_half_even n (2 ^ nat q)"
    by (rule round_half_even_ge)
  finally show ?thesis using True by (simp add: round_at_def)
next
  case False
  have "0 < n * 2 ^ nat (- q)" using assms(1) by simp
  also have "\<dots> \<le> round_half_even (n * 2 ^ nat (- q)) (Suc 0)"
    using round_half_even_ge [of "n * 2 ^ nat (- q)" "Suc 0"] by simp
  finally show ?thesis using False by (simp add: round_at_def)
qed

lemma round_double_int_nonzero:
  assumes "0 < n"
  shows "round_double s n (Suc 0) \<noteq> Finite s' 0 q'"
proof -
  have b1: "bit_length (Suc 0) = Suc 0"
    by (simp add: bit_length.simps [of "Suc 0"] bit_length.simps [of 0])
  define q where "q = max (leading_exponent n (Suc 0) - 52) (- 1074)"
  have "leading_exponent n (Suc 0) \<le> int (bit_length n) - 1"
    using leading_exponent_le [of n "Suc 0"] by (simp add: b1)
  moreover have "0 \<le> int (bit_length n) - 1"
    using bit_length_pos [OF assms] by simp
  ultimately have "q \<le> int (bit_length n) - 1"
    by (simp add: q_def)
  with assms have "0 < round_at n (Suc 0) q"
    by (rule round_at_int_pos)
  then show ?thesis
    using assms by (simp add: round_double_def Let_def q_def)
qed

text \<open>A quotient below \<open>2^1001\<close> is within the range of a float.\<close>

lemma round_double_finite:
  assumes n: "n < 2 ^ 1001" and d: "0 < d"
  shows "\<exists>m q. round_double s n d = Finite s m q"
proof (cases "n = 0")
  case True
  then show ?thesis by (simp add: round_double_def)
next
  case False
  define q where "q = max (leading_exponent n d - 52) (- 1074)"
  define m where "m = round_at n d q"
  have "bit_length n \<le> 1001" using n by (rule bit_length_le)
  moreover have "0 < bit_length d" using d by (rule bit_length_pos)
  ultimately have "int (bit_length n) - int (bit_length d) \<le> 1000" by simp
  with leading_exponent_le [of n d] have "leading_exponent n d \<le> 1000" by simp
  then have q948: "q \<le> 948" by (simp add: q_def)
  have "\<not> (0 \<le> q \<and> 2 ^ 1024 \<le> m * 2 ^ nat q)"
  proof
    assume a: "0 \<le> q \<and> 2 ^ 1024 \<le> m * 2 ^ nat q"
    let ?k = "(2::nat) ^ nat q"
    from a have "m \<le> n div (d * ?k) + 1"
      using round_half_even_le [of n "d * ?k"] by (simp add: m_def round_at_def)
    then have "m * ?k \<le> (n div (d * ?k) + 1) * ?k"
      by (rule mult_le_mono1)
    also have "\<dots> = n div (d * ?k) * ?k + ?k"
      by (simp add: algebra_simps)
    also have "\<dots> \<le> n div ?k * ?k + ?k"
      using d by (intro add_right_mono mult_le_mono1 div_le_mono2) simp_all
    also have "\<dots> \<le> n + ?k"
      by simp
    also have "\<dots> \<le> n + 2 ^ 948"
      using a q948 by (intro add_left_mono power_increasing) simp_all
    also have "\<dots> < (2::nat) ^ 1001 + 2 ^ 948"
      using n by simp
    also have "\<dots> < 2 ^ 1024"
      by simp
    finally show False using a by simp
  qed
  then show ?thesis
    using False by (simp add: round_double_def Let_def q_def m_def)
qed



lemmas float_eval =
  round_double_def leading_exponent_def round_at_def round_half_even_def bit_length.simps
  float_of_int_def int_truediv_def float_times_int_def Let_def



lemma float_of_int_nonzero:
  assumes "i \<noteq> 0" and "float_of_int i = Inr f"
  shows "\<not> float_is_zero f"
proof
  assume "float_is_zero f"
  then obtain s q where f: "f = Finite s 0 q"
    by (cases f) (auto simp: float_is_zero_def)
  from assms(2) have "round_double (i < 0) (nat \<bar>i\<bar>) (Suc 0) = f"
    by (auto simp: float_of_int_def split: pyfloat.splits)
  moreover from assms(1) have "0 < nat \<bar>i\<bar>" by simp
  ultimately show False
    using round_double_int_nonzero [of "nat \<bar>i\<bar>" "i < 0" s q] f by simp
qed

lemma float_of_int_100: "float_of_int 100 = Inr (Finite False 7036874417766400 (- 46))"
  by (simp add: float_eval)

lemma float_times_int_100:
  "float_times_int q 100 = Inr (float_mul q (Finite False 7036874417766400 (- 46)))"
  by (simp add: float_times_int_def float_of_int_100)




lemma py_bool_number:
  "py_bool v \<Longrightarrow> as_number v = Some (NInt i) \<Longrightarrow> i \<noteq> 0"
  by (auto simp: py_bool_def as_number_def split: json.splits if_splits)

lemma py_bool_float:
  "py_bool v \<Longrightarrow> as_number v = Some (NFloat f) \<Longrightarrow> \<not> float_is_zero f"
  by (auto simp: py_bool_def as_number_def split: json.splits if_splits)


lemma to_float_nonzero:
  "py_bool v \<Longrightarrow> as_number v = Some y \<Longrightarrow> to_float y = Inr f \<Longrightarrow> \<not> float_is_zero f"
  by (cases y) (auto simp: to_float_def dest: py_bool_number py_bool_float float_of_int_nonzero)





lemma int_truediv_finite:
  assumes "y \<noteq> 0" and "\<bar>x\<bar> < 2 ^ 1001"
  shows "\<exists>q. int_truediv x y = Inr q"
proof -
  from assms(2) have "nat \<bar>x\<bar> < 2 ^ 1001"
    by (simp add: nat_less_iff)
  moreover from assms(1) have "0 < nat \<bar>y\<bar>" by simp
  ultimately obtain m q where
    "round_double ((x < 0) \<noteq> (y < 0)) (nat \<bar>x\<bar>) (nat \<bar>y\<bar>) = Finite ((x < 0) \<noteq> (y < 0)) m q"
    using round_double_finite by blast
  with assms(1) show ?thesis by (simp add: int_truediv_def)
qed







section \<open>The path of the output file\<close>

text \<open>
  Claim C3. The claim has the output path be the input path with its trailing \<open>.json\<close>
  replaced by \<open>_report.md\<close>. The program calls \<open>replace\<close>, which rewrites every
  occurrence of \<open>.json\<close> in the path: for \<open>runs.json.d/results.json\<close> the output path is
  \<open>runs_report.md.d/results_report.md\<close>, in another directory than the input, and for a path
  without \<open>.json\<close> it is the input path itself.
\<close>

theorem output_path_replaces_every_occurrence:
  "output_path ''runs.json.d/results.json'' = ''runs_report.md.d/results_report.md'' \<and>
   output_path ''results.txt'' = ''results.txt''"
  by (simp add: output_path_def)

text \<open>
  What holds of the output path: a run writes no other file, and for a path that ends in
  \<open>.json\<close> and has no other occurrence of it, the output path is the one of the claim.
\<close>

lemma only_output_file_written:
  "p \<noteq> output_path (argv ! 1) \<Longrightarrow> files_after (main loads now fs argv) p = files fs p"
  by (simp add: main_def Let_def split: sum.splits)

lemma no_json_prefix:
  assumes "\<not> is_substr ''.json'' (c # cs)"
  shows "take 5 (c # cs @ ''.json'') \<noteq> ''.json''"
proof (cases "4 \<le> length cs")
  case True
  then have "take 5 (c # cs @ ''.json'') = take 5 (c # cs)" by simp
  with assms show ?thesis by (simp add: eval_nat_numeral)
next
  case False
  then consider "cs = []" | x where "cs = [x]" | x y where "cs = [x, y]"
    | x y z where "cs = [x, y, z]"
    by (cases cs; cases "tl cs"; cases "tl (tl cs)"; cases "tl (tl (tl cs))") auto
  then show ?thesis by cases auto
qed

lemma output_path_suffix:
  "\<not> is_substr ''.json'' stem \<Longrightarrow> output_path (stem @ ''.json'') = stem @ ''_report.md''"
proof (induction stem)
  case Nil
  show ?case by (simp add: output_path_def)
next
  case (Cons c cs)
  from Cons.prems have "\<not> is_substr ''.json'' cs" by simp
  with Cons.IH have "str_replace (cs @ ''.json'') ''.json'' ''_report.md'' = cs @ ''_report.md''"
    by (simp add: output_path_def)
  with no_json_prefix [OF Cons.prems] show ?case
    by (simp add: output_path_def eval_nat_numeral)
qed

section \<open>Rendering and missing keys\<close>

lemmas report_eval =
  generate_markdown_report_def report_lines_def header_section_def
  environment_section_def test_details_section_def summary_section_def
  comparison_section_def breakdown_section_def operations_def operation_row_def
  speedup_cell_def py_bool_def insights_section_def insight_block_def conclusion_section_def
  recommendations_section_def ranking_line_def py_iter_def metric_def get_eval Let_def

text \<open>
  Claim C2. The claim has rendering never fail, whatever keys are missing. The insight
  blocks and the ranking read their entries by subscript, without a default: a
  \<open>summary.fastest_startup\<close> without \<open>language\<close>, or a ranking entry without \<open>rank\<close>, raises
  KeyError, and no report is returned.
\<close>

theorem render_raises_on_partial_summary:
  "generate_markdown_report now (JDict [(''summary'', JDict [(''fastest_startup'', JDict [])])]) =
     Inl KeyError \<and>
   generate_markdown_report now
     (JDict [(''summary'', JDict [(''performance_ranking'', JList [JDict [(''language'', JStr ''Rust'')]])])]) =
     Inl KeyError"
  by (simp add: report_eval)

text \<open>
  What holds: every well-formed document renders, whichever of its sections and of the
  keys of \<open>system\<close>, \<open>test_details\<close>, \<open>winners\<close> and \<open>results\<close> are missing.
\<close>

lemma float_of_int_small: "\<bar>i\<bar> < 2 ^ 1000 \<Longrightarrow> \<exists>f. float_of_int i = Inr f"
proof -
  assume "\<bar>i\<bar> < 2 ^ 1000"
  then have "nat \<bar>i\<bar> < 2 ^ 1001" by (simp add: nat_less_iff)
  then obtain m q where "round_double (i < 0) (nat \<bar>i\<bar>) 1 = Finite (i < 0) m q"
    using round_double_finite [of "nat \<bar>i\<bar>" 1 "i < 0"] by auto
  then show ?thesis by (simp add: float_of_int_def)
qed

lemma number_ok_as_number: "number_ok v \<Longrightarrow> \<exists>x. as_number v = Some x"
  by (cases v) (auto simp: number_ok_def as_number_def)

lemma number_ok_int:
  "number_ok v \<Longrightarrow> as_number v = Some (NInt i) \<Longrightarrow> \<bar>i\<bar> < 2 ^ 1000"
  by (cases v) (auto simp: number_ok_def as_number_def split: if_splits)

lemma to_float_ok:
  assumes "number_ok v" and "as_number v = Some x"
  shows "\<exists>f. to_float x = Inr f"
proof (cases x)
  case (NInt i)
  with number_ok_int [OF assms(1)] assms(2) have "\<bar>i\<bar> < 2 ^ 1000" by simp
  then show ?thesis using NInt by (simp add: to_float_def float_of_int_small)
next
  case (NFloat f)
  then show ?thesis by (simp add: to_float_def)
qed

lemma speedup_total:
  assumes ts: "number_ok ts_val" and rust: "number_ok rust_val" and t: "py_bool ts_val"
  shows "\<exists>s. speedup ts_val rust_val = Inr s"
proof -
  from ts rust obtain x y where x: "as_number ts_val = Some x" and y: "as_number rust_val = Some y"
    using number_ok_as_number by blast
  from to_float_ok [OF ts x] obtain fx where fx: "to_float x = Inr fx" ..
  from to_float_ok [OF rust y] obtain fy where fy: "to_float y = Inr fy" ..
  from to_float_nonzero [OF t x fx] have nz: "\<not> float_is_zero fx" .
  show ?thesis
  proof (cases "\<exists>a b. x = NInt a \<and> y = NInt b")
    case True
    then obtain a b where ab: "x = NInt a" "y = NInt b" by blast
    from number_ok_int [OF ts] number_ok_int [OF rust] x y ab
    have "\<bar>a\<bar> < 2 ^ 1000" "\<bar>b\<bar> < 2 ^ 1000" by simp_all
    then have "\<bar>a - b\<bar> < 2 ^ 1001" by simp
    moreover from py_bool_number [OF t] x ab have "a \<noteq> 0" by simp
    ultimately obtain q where "int_truediv (a - b) a = Inr q"
      using int_truediv_finite by blast
    with x y ab show ?thesis
      by (simp add: speedup_def py_sub_def py_truediv_def as_number_def float_times_int_100)
  next
    case False
    with x y fx fy have "py_sub ts_val rust_val = Inr (JFloat (float_sub fx fy))"
      by (auto simp: py_sub_def split: number.splits)
    moreover from x fx nz have "py_truediv (JFloat (float_sub fx fy)) ts_val =
        Inr (float_quot (float_sub fx fy) fx)"
      by (auto simp: py_truediv_def as_number_def to_float_def float_div_def split: number.splits)
    ultimately show ?thesis
      by (simp add: speedup_def float_times_int_100)
  qed
qed

lemma speedup_cell_total:
  assumes "ts_val = JNull \<or> number_ok ts_val" and "rust_val = JNull \<or> number_ok rust_val"
  shows "\<exists>cell. speedup_cell ts_val rust_val = Inr cell"
proof (cases "py_bool ts_val \<and> py_bool rust_val")
  case True
  with assms have "number_ok ts_val" "number_ok rust_val"
    by (auto simp: py_bool_def)
  with True speedup_total obtain s where "speedup ts_val rust_val = Inr s" by blast
  with True show ?thesis by (simp add: speedup_cell_def)
next
  case False
  then show ?thesis by (auto simp: speedup_cell_def)
qed


lemma environment_total:
  "dict_or_absent kvs ''system'' \<Longrightarrow> \<exists>r. environment_section (JDict kvs) report = Inr r"
  by (auto simp: dict_or_absent_def environment_section_def get_eval
      split: option.splits json.splits)

lemma test_details_total:
  "dict_or_absent kvs ''test_details'' \<Longrightarrow> \<exists>r. test_details_section (JDict kvs) report = Inr r"
  by (auto simp: dict_or_absent_def test_details_section_def get_eval
      split: option.splits json.splits)

lemma summary_total:
  "dict_or_absent kvs ''winners'' \<Longrightarrow> \<exists>r. summary_section (JDict kvs) report = Inr r"
  by (auto simp: dict_or_absent_def summary_section_def get_eval Let_def
      split: option.splits json.splits)

lemma comparison_total:
  assumes "dict_or_absent impls ''TypeScript''" and "dict_or_absent impls ''Go''"
    and "dict_or_absent impls ''Rust''"
  shows "\<exists>r. comparison_section (JDict impls) report = Inr r"
  by (simp add: comparison_section_def metric_value [OF assms(1)] metric_value [OF assms(2)]
      metric_value [OF assms(3)] Let_def)

lemma operation_row_total:
  assumes d: "dict_or_absent impls ''TypeScript''" "dict_or_absent impls ''Go''"
      "dict_or_absent impls ''Rust''"
    and t: "timing_ok impls ''TypeScript'' op_key" "timing_ok impls ''Rust'' op_key"
  shows "\<exists>row. operation_row (JDict impls) op_name op_key = Inr row"
proof -
  let ?v = "\<lambda>name. case results_metric impls name op_key of None \<Rightarrow> JInt 0 | Some v \<Rightarrow> v"
  from t have "?v ''TypeScript'' = JNull \<or> number_ok (?v ''TypeScript'')"
    and "?v ''Rust'' = JNull \<or> number_ok (?v ''Rust'')"
    by (auto simp: timing_ok_def number_ok_def split: option.splits)
  then obtain cell where "speedup_cell (?v ''TypeScript'') (?v ''Rust'') = Inr cell"
    using speedup_cell_total by blast
  then show ?thesis
    by (simp add: operation_row_def metric_value [OF d(1)] metric_value [OF d(2)]
        metric_value [OF d(3)])
qed

lemma operations_loop_total:
  assumes d: "dict_or_absent impls ''TypeScript''" "dict_or_absent impls ''Go''"
      "dict_or_absent impls ''Rust''"
    and t: "list_all (\<lambda>op. timing_ok impls ''TypeScript'' (snd op) \<and> timing_ok impls ''Rust'' (snd op)) ops"
  shows "\<exists>r. operations_loop (JDict impls) ops report = Inr r"
  using t
proof (induction ops arbitrary: report)
  case Nil
  show ?case by simp
next
  case (Cons op ops)
  obtain op_name op_key where op: "op = (op_name, op_key)" by (cases op)
  from Cons.prems op obtain row where "operation_row (JDict impls) op_name op_key = Inr row"
    using operation_row_total [OF d] by auto
  moreover from Cons.IH [of "report @ [row]"] Cons.prems
  obtain r where "operations_loop (JDict impls) ops (report @ [row]) = Inr r" by auto
  ultimately show ?case by (simp add: op)
qed

lemma breakdown_total:
  assumes d: "dict_or_absent impls ''TypeScript''" "dict_or_absent impls ''Go''"
      "dict_or_absent impls ''Rust''"
    and t: "list_all (\<lambda>op. timing_ok impls ''TypeScript'' (snd op) \<and> timing_ok impls ''Rust'' (snd op)) operations"
  shows "\<exists>r. breakdown_section (JDict impls) report = Inr r"
proof -
  from operations_loop_total [OF d t] obtain r where
    "operations_loop (JDict impls) operations
       (report @
          [''## '' @ emoji_target @ '' Performance Breakdown by Operation'', '''',
           ''| Operation | TypeScript | Go | Rust | Speedup (Rust vs TS) |'',
           ''|-----------|-----------|-----|------|---------------------|'']) = Inr r"
    by blast
  then show ?thesis by (simp add: breakdown_section_def)
qed

lemma insight_block_total:
  assumes "entry_ok summary key [''language'', value_key, improvement_key]"
  shows "\<exists>r. insight_block (JDict summary) key heading label value_key unit improvement_key
           comparison report = Inr r"
  using assms
  by (auto simp: entry_ok_def has_keys_def insight_block_def get_eval
      split: option.splits json.splits)

lemma insights_total:
  assumes "summary_ok kvs"
  shows "\<exists>r. insights_section (JDict kvs) report = Inr r"
proof (cases "map_of kvs ''summary''")
  case None
  then show ?thesis by (simp add: insights_section_def get_eval Let_def)
next
  case (Some v)
  with assms obtain summary where v: "v = JDict summary"
    and e: "entry_ok summary ''fastest_startup'' [''language'', ''time_ms'', ''improvement_vs_slowest'']"
      "entry_ok summary ''lowest_memory'' [''language'', ''memory_mb'', ''improvement_vs_highest'']"
      "entry_ok summary ''fastest_analysis'' [''language'', ''time_ms'', ''improvement_vs_slowest'']"
    by (auto simp: summary_ok_def split: json.splits)
  from insight_block_total [OF e(1)] obtain r1 where r1:
    "insight_block (JDict summary) ''fastest_startup'' ''### Startup Performance''
       ''Time'' ''time_ms'' ''ms'' ''improvement_vs_slowest'' ''faster than slowest''
       (report @ [''## '' @ emoji_bulb @ '' Key Insights'', '''']) = Inr r1"
    by blast
  from insight_block_total [OF e(2)] obtain r2 where r2:
    "insight_block (JDict summary) ''lowest_memory'' ''### Memory Efficiency''
       ''Usage'' ''memory_mb'' ''MB'' ''improvement_vs_highest'' ''less than highest'' r1 = Inr r2"
    by blast
  from insight_block_total [OF e(3)] obtain r3 where r3:
    "insight_block (JDict summary) ''fastest_analysis'' ''### Analysis Speed''
       ''Time'' ''time_ms'' ''ms'' ''improvement_vs_slowest'' ''faster than slowest'' r2 = Inr r3"
    by blast
  from Some v r1 r2 r3 show ?thesis
    by (simp add: insights_section_def get_eval Let_def)
qed

lemma ranking_line_total:
  "has_keys info [''rank'', ''language'', ''score''] \<Longrightarrow> \<exists>line. ranking_line info = Inr line"
  by (auto simp: has_keys_def ranking_line_def get_eval split: json.splits)

lemma ranking_loop_total:
  "list_all (\<lambda>info. has_keys info [''rank'', ''language'', ''score'']) infos \<Longrightarrow>
     \<exists>r. ranking_loop infos report = Inr r"
proof (induction infos arbitrary: report)
  case Nil
  show ?case by simp
next
  case (Cons info infos)
  then obtain line where "ranking_line info = Inr line"
    using ranking_line_total by auto
  moreover from Cons obtain r where "ranking_loop infos (report @ [line]) = Inr r"
    by auto
  ultimately show ?case by simp
qed

lemma conclusion_total:
  assumes "summary_ok kvs"
  shows "\<exists>r. conclusion_section (JDict kvs) report = Inr r"
proof (cases "map_of kvs ''summary''")
  case None
  then show ?thesis by (simp add: conclusion_section_def get_eval Let_def)
next
  case (Some v)
  with assms obtain summary where v: "v = JDict summary" and k: "ranking_ok summary"
    by (auto simp: summary_ok_def split: json.splits)
  show ?thesis
  proof (cases "map_of summary ''performance_ranking''")
    case None
    with Some v show ?thesis by (simp add: conclusion_section_def get_eval Let_def)
  next
    case (Some ranking)
    with k obtain infos where i: "ranking = JList infos"
      and "list_all (\<lambda>info. has_keys info [''rank'', ''language'', ''score'']) infos"
      by (auto simp: ranking_ok_def split: json.splits)
    from ranking_loop_total [OF this(2)] obtain r where
      "ranking_loop infos
         (report @ [''## '' @ emoji_party @ '' Conclusion'', '''', ''**Performance Ranking:**'']) = Inr r"
      by blast
    with \<open>map_of kvs ''summary'' = Some v\<close> v Some i show ?thesis
      by (simp add: conclusion_section_def get_eval py_iter_def Let_def)
  qed
qed

lemma render_total:
  assumes "well_formed kvs"
  shows "\<exists>text. generate_markdown_report now (JDict kvs) = Inr text"
proof -
  from assms have s: "dict_or_absent kvs ''system''" and t: "dict_or_absent kvs ''test_details''"
    and w: "dict_or_absent kvs ''winners''" and r: "results_ok kvs" and u: "summary_ok kvs"
    by (simp_all add: well_formed_def)
  obtain r1 where r1: "header_section now (JDict kvs) [] = Inr r1"
    by (simp add: header_section_def py_get_def)
  from environment_total [OF s] obtain r2 where r2: "environment_section (JDict kvs) r1 = Inr r2"
    by blast
  from test_details_total [OF t] obtain r3 where r3: "test_details_section (JDict kvs) r2 = Inr r3"
    by blast
  from summary_total [OF w] obtain r4 where r4: "summary_section (JDict kvs) r3 = Inr r4"
    by blast
  from r obtain impls where res: "py_get (JDict kvs) ''results'' (JDict []) = Inr (JDict impls)"
    and d: "dict_or_absent impls ''TypeScript''" "dict_or_absent impls ''Go''"
      "dict_or_absent impls ''Rust''"
    and o: "list_all (\<lambda>op. timing_ok impls ''TypeScript'' (snd op) \<and> timing_ok impls ''Rust'' (snd op)) operations"
    by (auto simp: results_ok_def py_get_def dict_or_absent_def timing_ok_def results_metric_def
        operations_def split: option.splits json.splits)
  from comparison_total [OF d] obtain r5 where r5: "comparison_section (JDict impls) r4 = Inr r5"
    by blast
  from breakdown_total [OF d o] obtain r6 where r6: "breakdown_section (JDict impls) r5 = Inr r6"
    by blast
  from insights_total [OF u] obtain r7 where r7: "insights_section (JDict kvs) r6 = Inr r7"
    by blast
  from conclusion_total [OF u] obtain r8 where
    r8: "conclusion_section (JDict kvs) (recommendations_section r7) = Inr r8"
    by blast
  from r1 r2 r3 r4 res r5 r6 r7 r8 show ?thesis
    by (simp add: generate_markdown_report_def report_lines_def)
qed

end
